theory Spec2Isabelle
  imports Complex_Main "HOL-Library.Word"
begin

section \<open>Python primitives used by the colour pipeline\<close>

text \<open>
  The sources compute with Python floats. They are modelled here as exact reals: every
  literal such as \<open>0.8\<close> is the rational it denotes and no rounding happens. Integers are
  Python's unbounded \<open>int\<close>. Exceptions are values of \<open>py_error\<close> and a function that
  can raise returns \<open>py_error + 'a\<close>.
\<close>

datatype py_error = ZeroDivisionError | ValueError string

text \<open>\<open>int(x)\<close> on a float truncates towards zero.\<close>

definition py_int :: "real \<Rightarrow> int" where
  "py_int x = (if 0 \<le> x then \<lfloor>x\<rfloor> else \<lceil>x\<rceil>)"

text \<open>\<open>x % m\<close> on floats, for a positive modulus: the result lies in \<open>[0, m)\<close>.\<close>

definition py_mod :: "real \<Rightarrow> real \<Rightarrow> real" where
  "py_mod x m = x - m * of_int \<lfloor>x / m\<rfloor>"

text \<open>True division \<open>a / b\<close>, which raises on a zero divisor.\<close>

definition py_div :: "real \<Rightarrow> real \<Rightarrow> py_error + real" where
  "py_div a b = (if b = 0 then Inl ZeroDivisionError else Inr (a / b))"

section \<open>The standard library's \<open>colorsys\<close>: RGB and HLS\<close>

definition ONE_THIRD :: real where "ONE_THIRD = 1 / 3"
definition ONE_SIXTH :: real where "ONE_SIXTH = 1 / 6"
definition TWO_THIRD :: real where "TWO_THIRD = 2 / 3"

text \<open>
  \<open>rgb_to_hls\<close> returns \<open>(h, l, s)\<close>. Its two divisions that compute the saturation
  raise \<open>ZeroDivisionError\<close> on a zero divisor; the divisions by \<open>rangec\<close> are reached
  only when \<open>minc \<noteq> maxc\<close>.
\<close>

definition rgb_to_hls :: "real \<Rightarrow> real \<Rightarrow> real \<Rightarrow> py_error + (real \<times> real \<times> real)" where
  "rgb_to_hls r g b =
     (let maxc = max r (max g b);
          minc = min r (min g b);
          sumc = maxc + minc;
          rangec = maxc - minc;
          l = sumc / 2
      in if minc = maxc then Inr (0, l, 0)
         else case (if l \<le> 1 / 2 then py_div rangec sumc
                    else py_div rangec (2 - maxc - minc)) of
                Inl e \<Rightarrow> Inl e
              | Inr s \<Rightarrow>
                  (let rc = (maxc - r) / rangec;
                       gc = (maxc - g) / rangec;
                       bc = (maxc - b) / rangec;
                       h = (if r = maxc then bc - gc
                            else if g = maxc then 2 + rc - bc
                            else 4 + gc - rc)
                   in Inr (py_mod (h / 6) 1, l, s)))"

definition colorsys_v :: "real \<Rightarrow> real \<Rightarrow> real \<Rightarrow> real" where
  "colorsys_v m1 m2 hue0 =
     (let hue = py_mod hue0 1
      in if hue < ONE_SIXTH then m1 + (m2 - m1) * hue * 6
         else if hue < 1 / 2 then m2
         else if hue < TWO_THIRD then m1 + (m2 - m1) * (TWO_THIRD - hue) * 6
         else m1)"

definition hls_to_rgb :: "real \<Rightarrow> real \<Rightarrow> real \<Rightarrow> real \<times> real \<times> real" where
  "hls_to_rgb h l s =
     (if s = 0 then (l, l, l)
      else let m2 = (if l \<le> 1 / 2 then l * (1 + s) else l + s - l * s);
               m1 = 2 * l - m2
           in (colorsys_v m1 m2 (h + ONE_THIRD), colorsys_v m1 m2 h,
               colorsys_v m1 m2 (h - ONE_THIRD)))"

section \<open>Colour values\<close>

text \<open>
  An RGB colour is the three-element list \<open>[r, g, b]\<close> of the sources, here a triple of
  integers. The HSL and CMYK dictionaries have the keys \<open>h, s, l\<close> and \<open>c, m, y, k\<close>;
  the record fields carry a prefix.
\<close>

type_synonym rgb = "int \<times> int \<times> int"

record hsl =
  hsl_h :: int
  hsl_s :: int
  hsl_l :: int

record cmyk =
  cmyk_c :: int
  cmyk_m :: int
  cmyk_y :: int
  cmyk_k :: int

record color_info =
  rgb :: rgb
  hex :: string
  hsl :: hsl
  cmyk :: cmyk

record dominant_color = color_info +
  frequency :: real
  rank :: nat

record palette_color = color_info +
  role :: string
  locked :: bool

definition valid_rgb :: "rgb \<Rightarrow> bool" where
  "valid_rgb c = (case c of (r, g, b) \<Rightarrow>
     0 \<le> r \<and> r \<le> 255 \<and> 0 \<le> g \<and> g \<le> 255 \<and> 0 \<le> b \<and> b \<le> 255)"

section \<open>Colour space converter (\<open>color_processor.py\<close>, \<open>palette_generator.py\<close>)\<close>

definition hex_digit :: "nat \<Rightarrow> char" where
  "hex_digit d = ''0123456789abcdef'' ! d"

fun hex_of_nat :: "nat \<Rightarrow> string" where
  "hex_of_nat n = (if n < 16 then [hex_digit n] else hex_of_nat (n div 16) @ [hex_digit (n mod 16)])"

text \<open>\<open>'{:02x}'.format(i)\<close>: lower-case hexadecimal, zero-padded to width two, sign first.\<close>

definition format_02x :: "int \<Rightarrow> string" where
  "format_02x i =
     (if 0 \<le> i
      then (let ds = hex_of_nat (nat i) in if length ds < 2 then CHR ''0'' # ds else ds)
      else CHR ''-'' # hex_of_nat (nat (- i)))"

definition rgb_to_hex :: "rgb \<Rightarrow> string" where
  "rgb_to_hex c = (case c of (r, g, b) \<Rightarrow> ''#'' @ format_02x r @ format_02x g @ format_02x b)"

definition rgb_to_hsl :: "rgb \<Rightarrow> py_error + hsl" where
  "rgb_to_hsl c = (case c of (r, g, b) \<Rightarrow>
     (case rgb_to_hls (real_of_int r / 255) (real_of_int g / 255) (real_of_int b / 255) of
        Inl e \<Rightarrow> Inl e
      | Inr (h, l, s) \<Rightarrow>
          Inr \<lparr>hsl_h = py_int (h * 360), hsl_s = py_int (s * 100), hsl_l = py_int (l * 100)\<rparr>))"

definition rgb_to_cmyk :: "rgb \<Rightarrow> py_error + cmyk" where
  "rgb_to_cmyk c0 = (case c0 of (r0, g0, b0) \<Rightarrow>
     (let r = real_of_int r0 / 255; g = real_of_int g0 / 255; b = real_of_int b0 / 255;
          k = 1 - max r (max g b)
      in if k = 1 then Inr \<lparr>cmyk_c = 0, cmyk_m = 0, cmyk_y = 0, cmyk_k = 100\<rparr>
         else case py_div (1 - r - k) (1 - k) of Inl e \<Rightarrow> Inl e | Inr c \<Rightarrow>
              (case py_div (1 - g - k) (1 - k) of Inl e \<Rightarrow> Inl e | Inr m \<Rightarrow>
              (case py_div (1 - b - k) (1 - k) of Inl e \<Rightarrow> Inl e | Inr y \<Rightarrow>
                 Inr \<lparr>cmyk_c = py_int (c * 100), cmyk_m = py_int (m * 100),
                      cmyk_y = py_int (y * 100), cmyk_k = py_int (k * 100)\<rparr>))))"

text \<open>\<open>_hsl_to_rgb(h, s, l)\<close>: hue in degrees, saturation and lightness as fractions.\<close>

definition hsl_to_rgb :: "real \<Rightarrow> real \<Rightarrow> real \<Rightarrow> rgb" where
  "hsl_to_rgb h s l =
     (let h_norm = h / 360 in
      case hls_to_rgb h_norm l s of (r, g, b) \<Rightarrow>
        (py_int (r * 255), py_int (g * 255), py_int (b * 255)))"

section \<open>Static rule tables of \<open>PaletteGenerator\<close>\<close>

record style_rule =
  saturation_range :: "real \<times> real"
  lightness_range :: "real \<times> real"
  preferred_hues :: "int list"
  temperature :: string

definition style_rules :: "string \<rightharpoonup> style_rule" where
  "style_rules = map_of
     [(''japandi'', \<lparr>saturation_range = (5 / 100, 25 / 100), lightness_range = (7 / 10, 95 / 100),
         preferred_hues = [30, 45, 60, 200, 220], temperature = ''warm''\<rparr>),
      (''scandinavian'', \<lparr>saturation_range = (1 / 10, 4 / 10), lightness_range = (75 / 100, 95 / 100),
         preferred_hues = [0, 200, 220, 240], temperature = ''cool''\<rparr>),
      (''minimalist'', \<lparr>saturation_range = (0, 15 / 100), lightness_range = (2 / 10, 95 / 100),
         preferred_hues = [0, 60, 120, 180, 240, 300], temperature = ''neutral''\<rparr>),
      (''industrial'', \<lparr>saturation_range = (1 / 10, 5 / 10), lightness_range = (2 / 10, 7 / 10),
         preferred_hues = [0, 30, 200, 220, 240], temperature = ''cool''\<rparr>),
      (''mediterranean'', \<lparr>saturation_range = (3 / 10, 8 / 10), lightness_range = (4 / 10, 8 / 10),
         preferred_hues = [20, 40, 60, 180, 200, 220, 240], temperature = ''warm''\<rparr>)]"

record mood_adjustment =
  mood_saturation :: real
  mood_lightness :: real

definition mood_adjustments :: "string \<rightharpoonup> mood_adjustment" where
  "mood_adjustments = map_of
     [(''calm'', \<lparr>mood_saturation = - (2 / 10), mood_lightness = 1 / 10\<rparr>),
      (''cozy'', \<lparr>mood_saturation = 1 / 10, mood_lightness = - (1 / 10)\<rparr>),
      (''luxury'', \<lparr>mood_saturation = 2 / 10, mood_lightness = - (2 / 10)\<rparr>),
      (''energetic'', \<lparr>mood_saturation = 3 / 10, mood_lightness = 0\<rparr>)]"

record lighting_adjustment =
  light_temperature :: real
  light_brightness :: real

definition lighting_adjustments :: "string \<rightharpoonup> lighting_adjustment" where
  "lighting_adjustments = map_of
     [(''daylight'', \<lparr>light_temperature = 0, light_brightness = 0\<rparr>),
      (''warm_light'', \<lparr>light_temperature = 1 / 10, light_brightness = - (5 / 100)\<rparr>),
      (''cool_led'', \<lparr>light_temperature = - (1 / 10), light_brightness = 5 / 100\<rparr>)]"

text \<open>\<open>d.get(key, default)\<close>.\<close>

definition dict_get :: "('k \<rightharpoonup> 'v) \<Rightarrow> 'k \<Rightarrow> 'v \<Rightarrow> 'v" where
  "dict_get d key dflt = (case d key of None \<Rightarrow> dflt | Some x \<Rightarrow> x)"

definition prefixes :: "string list" where
  "prefixes = [''Serene'', ''Vibrant'', ''Dreamy'', ''Bold'', ''Gentle'', ''Rich'', ''Fresh'',
     ''Warm'', ''Cool'', ''Deep'']"

definition themes :: "string list" where
  "themes = [''Ocean'', ''Forest'', ''Sunset'', ''Dawn'', ''Garden'', ''Stone'', ''Sand'',
     ''Sky'', ''Earth'', ''Moonlight'']"

definition suffixes :: "string list" where
  "suffixes = [''Harmony'', ''Whisper'', ''Embrace'', ''Glow'', ''Essence'', ''Dream'', ''Breeze'',
     ''Touch'', ''Aura'', ''Calm'']"

section \<open>Harmony colour generator\<close>

definition generate_harmony_colors :: "real \<Rightarrow> real \<Rightarrow> real \<Rightarrow> string \<Rightarrow> rgb list" where
  "generate_harmony_colors h s l harmony_type =
     (if harmony_type = ''complementary'' then
        [hsl_to_rgb h s l,
         hsl_to_rgb (py_mod (h + 180) 360) (s * (8 / 10)) l,
         hsl_to_rgb h (s * (3 / 10)) (l + 2 / 10),
         hsl_to_rgb (py_mod (h + 180) 360) (s * (3 / 10)) (l + 2 / 10),
         hsl_to_rgb h (s * (1 / 10)) (l + 3 / 10)]
      else if harmony_type = ''analogous'' then
        [hsl_to_rgb h s l,
         hsl_to_rgb (py_mod (h + 30) 360) (s * (9 / 10)) l,
         hsl_to_rgb (py_mod (h - 30) 360) (s * (9 / 10)) l,
         hsl_to_rgb (py_mod (h + 60) 360) (s * (7 / 10)) (l + 1 / 10),
         hsl_to_rgb (py_mod (h - 60) 360) (s * (7 / 10)) (l + 1 / 10)]
      else if harmony_type = ''triadic'' then
        [hsl_to_rgb h s l,
         hsl_to_rgb (py_mod (h + 120) 360) (s * (8 / 10)) l,
         hsl_to_rgb (py_mod (h + 240) 360) (s * (8 / 10)) l,
         hsl_to_rgb h (s * (3 / 10)) (l + 2 / 10),
         hsl_to_rgb (py_mod (h + 120) 360) (s * (3 / 10)) (l + 2 / 10)]
      else if harmony_type = ''tetradic'' then
        [hsl_to_rgb h s l,
         hsl_to_rgb (py_mod (h + 90) 360) (s * (9 / 10)) l,
         hsl_to_rgb (py_mod (h + 180) 360) (s * (8 / 10)) l,
         hsl_to_rgb (py_mod (h + 270) 360) (s * (9 / 10)) l,
         hsl_to_rgb h (s * (2 / 10)) (l + 3 / 10)]
      else if harmony_type = ''monochromatic'' then
        [hsl_to_rgb h s l,
         hsl_to_rgb h (s * (8 / 10)) (l + 1 / 10),
         hsl_to_rgb h (s * (6 / 10)) (l + 2 / 10),
         hsl_to_rgb h (s * (4 / 10)) (l + 3 / 10),
         hsl_to_rgb h (s * (2 / 10)) (l + 4 / 10)]
      else [])"

section \<open>Style, mood and lighting adjuster\<close>

text \<open>
  \<open>_select_style_colors\<close>: the loop appends the \<open>rgb\<close> of every dominant colour that fits
  the style's ranges to \<open>selected_colors\<close>; an empty selection is replaced by the first
  three dominant colours.
\<close>

definition fits_style :: "style_rule \<Rightarrow> ('a dominant_color_scheme) \<Rightarrow> bool" where
  "fits_style style_rule color_info =
     (let saturation = real_of_int (hsl_s (hsl color_info)) / 100;
          lightness = real_of_int (hsl_l (hsl color_info)) / 100
      in case saturation_range style_rule of (sat_min, sat_max) \<Rightarrow>
         case lightness_range style_rule of (light_min, light_max) \<Rightarrow>
           sat_min \<le> saturation \<and> saturation \<le> sat_max \<and>
           light_min \<le> lightness \<and> lightness \<le> light_max)"

fun select_loop :: "style_rule \<Rightarrow> ('a dominant_color_scheme) list \<Rightarrow> rgb list \<Rightarrow> rgb list" where
  "select_loop style_rule [] selected_colors = selected_colors"
| "select_loop style_rule (color_info # rest) selected_colors =
     select_loop style_rule rest
       (if fits_style style_rule color_info then selected_colors @ [rgb color_info]
        else selected_colors)"

definition select_style_colors :: "('a dominant_color_scheme) list \<Rightarrow> string \<Rightarrow> rgb list" where
  "select_style_colors dominant_colors style =
     (let style_rule = dict_get style_rules style (the (style_rules ''scandinavian''));
          selected_colors = select_loop style_rule dominant_colors []
      in if selected_colors = [] then map rgb (take 3 dominant_colors) else selected_colors)"

definition clamp01 :: "real \<Rightarrow> real" where
  "clamp01 x = max 0 (min 1 x)"

text \<open>The body of the loop of \<open>_apply_style_mood_lighting\<close>, for one colour.\<close>

definition apply_adjustments :: "mood_adjustment \<Rightarrow> lighting_adjustment \<Rightarrow> rgb \<Rightarrow> py_error + rgb" where
  "apply_adjustments mood_adj lighting_adj c = (case c of (r0, g0, b0) \<Rightarrow>
     (case rgb_to_hls (real_of_int r0 / 255) (real_of_int g0 / 255) (real_of_int b0 / 255) of
        Inl e \<Rightarrow> Inl e
      | Inr (h, l, s) \<Rightarrow>
          (let s1 = clamp01 (s + mood_saturation mood_adj);
               l1 = clamp01 (l + mood_lightness mood_adj);
               h1 = (if light_temperature lighting_adj > 0
                     then (if h < 98 / 100 then h + 2 / 100 else h)
                     else if light_temperature lighting_adj < 0
                     then (if h > 2 / 100 then h - 2 / 100 else h)
                     else h);
               l2 = clamp01 (l1 + light_brightness lighting_adj)
           in case hls_to_rgb h1 l2 s1 of (r, g, b) \<Rightarrow>
                Inr (py_int (r * 255), py_int (g * 255), py_int (b * 255)))))"

fun apply_loop :: "mood_adjustment \<Rightarrow> lighting_adjustment \<Rightarrow> rgb list \<Rightarrow> rgb list \<Rightarrow> py_error + rgb list" where
  "apply_loop mood_adj lighting_adj [] adjusted_colors = Inr adjusted_colors"
| "apply_loop mood_adj lighting_adj (c # rest) adjusted_colors =
     (case apply_adjustments mood_adj lighting_adj c of
        Inl e \<Rightarrow> Inl e
      | Inr adjusted_rgb \<Rightarrow> apply_loop mood_adj lighting_adj rest (adjusted_colors @ [adjusted_rgb]))"

definition apply_style_mood_lighting :: "rgb list \<Rightarrow> string \<Rightarrow> string \<Rightarrow> string \<Rightarrow> py_error + rgb list" where
  "apply_style_mood_lighting colors style mood lighting =
     (let mood_adj = dict_get mood_adjustments mood \<lparr>mood_saturation = 0, mood_lightness = 0\<rparr>;
          lighting_adj = dict_get lighting_adjustments lighting
                           \<lparr>light_temperature = 0, light_brightness = 0\<rparr>
      in apply_loop mood_adj lighting_adj colors [])"

text \<open>
  \<open>adjust_for_lighting\<close> works on palette entries; each entry is copied and its \<open>rgb\<close> and
  \<open>hex\<close> are replaced. An entry is a record here, so the default of
  \<open>color.get('rgb', [128, 128, 128])\<close> is never taken.
\<close>

definition adjust_color_for_lighting ::
  "lighting_adjustment \<Rightarrow> ('a palette_color_scheme) \<Rightarrow> py_error + ('a palette_color_scheme)" where
  "adjust_color_for_lighting lighting_adj color = (case rgb color of (r0, g0, b0) \<Rightarrow>
     (case rgb_to_hls (real_of_int r0 / 255) (real_of_int g0 / 255) (real_of_int b0 / 255) of
        Inl e \<Rightarrow> Inl e
      | Inr (h, l, s) \<Rightarrow>
          (let h1 = (if light_temperature lighting_adj > 0 then min 1 (h + 2 / 100)
                     else if light_temperature lighting_adj < 0 then max 0 (h - 2 / 100)
                     else h);
               l1 = clamp01 (l + light_brightness lighting_adj)
           in case hls_to_rgb h1 l1 s of (r, g, b) \<Rightarrow>
                (let adjusted_rgb = (py_int (r * 255), py_int (g * 255), py_int (b * 255))
                 in Inr (color\<lparr>rgb := adjusted_rgb, hex := rgb_to_hex adjusted_rgb\<rparr>)))))"

fun adjust_loop ::
  "lighting_adjustment \<Rightarrow> ('a palette_color_scheme) list \<Rightarrow> ('a palette_color_scheme) list
     \<Rightarrow> py_error + ('a palette_color_scheme) list" where
  "adjust_loop lighting_adj [] adjusted_colors = Inr adjusted_colors"
| "adjust_loop lighting_adj (color # rest) adjusted_colors =
     (case adjust_color_for_lighting lighting_adj color of
        Inl e \<Rightarrow> Inl e
      | Inr adjusted_color \<Rightarrow> adjust_loop lighting_adj rest (adjusted_colors @ [adjusted_color]))"

definition adjust_for_lighting ::
  "('a palette_color_scheme) list \<Rightarrow> string \<Rightarrow> py_error + ('a palette_color_scheme) list" where
  "adjust_for_lighting colors lighting_type =
     (let lighting_adj = dict_get lighting_adjustments lighting_type
                           \<lparr>light_temperature = 0, light_brightness = 0\<rparr>
      in adjust_loop lighting_adj colors [])"

section \<open>Palette assembler\<close>

definition dec_digit :: "nat \<Rightarrow> char" where
  "dec_digit d = ''0123456789'' ! d"

fun str_of_nat :: "nat \<Rightarrow> string" where
  "str_of_nat n = (if n < 10 then [dec_digit n] else str_of_nat (n div 10) @ [dec_digit (n mod 10)])"

definition roles :: "string list" where
  "roles = [''Primary'', ''Secondary'', ''Accent'', ''Neutral'', ''Background'']"

text \<open>\<open>roles[i] if i < len(roles) else f'Color {i + 1}'\<close>.\<close>

definition role_for :: "nat \<Rightarrow> string" where
  "role_for i = (if i < length roles then roles ! i else ''Color '' @ str_of_nat (i + 1))"

text \<open>
  \<open>_assign_color_roles\<close>: \<open>enumerate\<close> supplies the position \<open>i\<close>; the entry is built
  from the hex, HSL and CMYK conversions, in this order.
\<close>

fun assign_loop :: "nat \<Rightarrow> rgb list \<Rightarrow> palette_color list \<Rightarrow> py_error + palette_color list" where
  "assign_loop i [] palette = Inr palette"
| "assign_loop i (c # rest) palette =
     (let role = role_for i in
      case rgb_to_hsl c of Inl e \<Rightarrow> Inl e | Inr hsl_v \<Rightarrow>
      (case rgb_to_cmyk c of Inl e \<Rightarrow> Inl e | Inr cmyk_v \<Rightarrow>
         assign_loop (i + 1) rest
           (palette @ [\<lparr>rgb = c, hex = rgb_to_hex c, hsl = hsl_v, cmyk = cmyk_v,
                         role = role, locked = False\<rparr>])))"

definition assign_color_roles :: "rgb list \<Rightarrow> py_error + palette_color list" where
  "assign_color_roles colors = assign_loop 0 colors []"

text \<open>
  \<open>random.choice\<close> is the only source of non-determinism. The model takes the draws as a
  parameter: the \<open>n\<close>-th call of \<open>random.choice\<close> of one invocation picks the element at
  index \<open>draws n mod len\<close> of its (non-empty) argument.
\<close>

definition choice :: "nat \<Rightarrow> 'a list \<Rightarrow> 'a" where
  "choice d xs = xs ! (d mod length xs)"

definition generate_palette_name :: "(nat \<Rightarrow> nat) \<Rightarrow> palette_color list \<Rightarrow> string \<Rightarrow> string \<Rightarrow> string" where
  "generate_palette_name draws colors mood style =
     (let prefix0 = choice (draws 0) prefixes;
          theme = choice (draws 1) themes;
          suffix = choice (draws 2) suffixes;
          prefix = (if mood = ''luxury'' then choice (draws 3) [''Rich'', ''Deep'', ''Bold'']
                    else if mood = ''calm'' then choice (draws 3) [''Serene'', ''Gentle'', ''Soft'']
                    else if mood = ''energetic'' then choice (draws 3) [''Vibrant'', ''Bold'', ''Fresh'']
                    else prefix0)
      in prefix @ '' '' @ theme @ '' '' @ suffix)"

section \<open>The two pipelines\<close>

record palette =
  name :: string
  colors :: "palette_color list"
  harmony_type :: "string option"
  style :: string
  mood :: string
  lighting :: string
  created_at :: string

text \<open>
  \<open>generate_palette\<close>. The handler of its \<open>try\<close> logs and re-raises, so an exception of
  any step is the result. \<open>now\<close> is what \<open>get_current_timestamp\<close> returns.
\<close>

definition generate_palette ::
  "(nat \<Rightarrow> nat) \<Rightarrow> string \<Rightarrow> ('a dominant_color_scheme) list \<Rightarrow> string \<Rightarrow> string \<Rightarrow> string
     \<Rightarrow> py_error + palette" where
  "generate_palette draws now dominant_colors style0 mood0 lighting0 =
     (let base_colors = select_style_colors dominant_colors style0 in
      case (case base_colors of
              [] \<Rightarrow> Inr base_colors
            | primary_rgb # _ \<Rightarrow>
                (case primary_rgb of (r, g, b) \<Rightarrow>
                   (case rgb_to_hls (real_of_int r / 255) (real_of_int g / 255) (real_of_int b / 255) of
                      Inl e \<Rightarrow> Inl e
                    | Inr (h, l, s) \<Rightarrow>
                        Inr (generate_harmony_colors (h * 360) s l ''complementary'')))) of
        Inl e \<Rightarrow> Inl e
      | Inr harmony_palette \<Rightarrow>
          (case apply_style_mood_lighting harmony_palette style0 mood0 lighting0 of
             Inl e \<Rightarrow> Inl e
           | Inr adjusted_palette \<Rightarrow>
               (case assign_color_roles adjusted_palette of
                  Inl e \<Rightarrow> Inl e
                | Inr final_palette \<Rightarrow>
                    Inr \<lparr>name = generate_palette_name draws final_palette mood0 style0,
                         colors = final_palette, harmony_type = None, style = style0,
                         mood = mood0, lighting = lighting0, created_at = now\<rparr>)))"

text \<open>
  A base colour of \<open>generate_harmony_palette\<close> is either a dictionary, read with
  \<open>get('rgb', [128, 128, 128])\<close>, or the RGB list itself.
\<close>

datatype base_color = ColorDict "rgb option" | ColorList rgb

definition generate_harmony_palette ::
  "(nat \<Rightarrow> nat) \<Rightarrow> string \<Rightarrow> base_color list \<Rightarrow> string \<Rightarrow> string \<Rightarrow> string \<Rightarrow> string
     \<Rightarrow> py_error + palette" where
  "generate_harmony_palette draws now base_colors harmony_type0 style0 mood0 lighting0 =
     (case base_colors of
        [] \<Rightarrow> Inl (ValueError ''No base colors provided'')
      | primary_color # _ \<Rightarrow>
          (case (case primary_color of
                   ColorDict d \<Rightarrow> (case d of None \<Rightarrow> (128, 128, 128) | Some c \<Rightarrow> c)
                 | ColorList c \<Rightarrow> c) of (r, g, b) \<Rightarrow>
             (case rgb_to_hls (real_of_int r / 255) (real_of_int g / 255) (real_of_int b / 255) of
                Inl e \<Rightarrow> Inl e
              | Inr (h, l, s) \<Rightarrow>
                  (case apply_style_mood_lighting
                          (generate_harmony_colors (h * 360) s l harmony_type0) style0 mood0 lighting0 of
                     Inl e \<Rightarrow> Inl e
                   | Inr adjusted_palette \<Rightarrow>
                       (case assign_color_roles adjusted_palette of
                          Inl e \<Rightarrow> Inl e
                        | Inr final_palette \<Rightarrow>
                            Inr \<lparr>name = generate_palette_name draws final_palette mood0 style0,
                                 colors = final_palette, harmony_type = Some harmony_type0,
                                 style = style0, mood = mood0, lighting = lighting0,
                                 created_at = now\<rparr>)))))"

section \<open>Dominant colour extractor: the extreme-colour filter\<close>

text \<open>
  The pixels are the rows of a \<open>uint8\<close> array. \<open>np.mean(pixels, axis=1)\<close> is the mean of
  the three channels of each row, computed in floating point; the boolean mask selects the
  rows that are kept.
\<close>

type_synonym pixel = "8 word \<times> 8 word \<times> 8 word"

definition brightness :: "pixel \<Rightarrow> real" where
  "brightness p = (case p of (r, g, b) \<Rightarrow> real (unat r + unat g + unat b) / 3)"

definition filter_extreme_colors :: "pixel list \<Rightarrow> real \<Rightarrow> real \<Rightarrow> pixel list" where
  "filter_extreme_colors pixels dark_threshold light_threshold =
     (let mask = map (\<lambda>p. brightness p > dark_threshold \<and> brightness p < light_threshold) pixels;
          filtered_pixels = map fst (filter snd (zip pixels mask))
      in if real (length filtered_pixels) < real (length pixels) * (1 / 10) then pixels
         else filtered_pixels)"

section \<open>The HSL round trip\<close>

text \<open>
  The converter's round trip: \<open>_rgb_to_hsl\<close> yields the hue in whole degrees and the
  saturation and lightness in whole percent; \<open>_hsl_to_rgb\<close> takes the hue in degrees and
  the other two as fractions, so the percentages are divided by 100 (as
  \<open>_select_style_colors\<close> does when it reads them).
\<close>

definition hsl_round_trip :: "rgb \<Rightarrow> py_error + rgb" where
  "hsl_round_trip c =
     (case rgb_to_hsl c of
        Inl e \<Rightarrow> Inl e
      | Inr x \<Rightarrow> Inr (hsl_to_rgb (real_of_int (hsl_h x)) (real_of_int (hsl_s x) / 100)
                      (real_of_int (hsl_l x) / 100)))"

text \<open>
  Two functions used to analyse \<open>hls_to_rgb\<close>: the trapezoid that \<open>colorsys._v\<close> traces
  over one turn of the hue, and the width \<open>1 - |2l - 1|\<close> of the channel range at
  lightness \<open>l\<close>.
\<close>

definition trapezoid :: "real \<Rightarrow> real" where
  "trapezoid u = max 0 (min 1 (min (6 * u) (4 - 6 * u)))"

definition chroma_width :: "real \<Rightarrow> real" where
  "chroma_width l = 1 - \<bar>2 * l - 1\<bar>"

text \<open>The trapezoid at a hue taken modulo one turn, and the channel value it determines.\<close>

definition hue_wave :: "real \<Rightarrow> real" where
  "hue_wave x = trapezoid (py_mod x 1)"

definition channel :: "real \<Rightarrow> real \<Rightarrow> real \<Rightarrow> real" where
  "channel l s t = l + s * chroma_width l * (t - 1 / 2)"

section \<open>Verification: helper facts\<close>

lemma py_mod_range: "0 < m \<Longrightarrow> 0 \<le> py_mod x m \<and> py_mod x m < m"
proof -
  assume m: "0 < m"
  have a: "of_int \<lfloor>x / m\<rfloor> \<le> x / m" by simp
  have b: "x / m < of_int \<lfloor>x / m\<rfloor> + 1" by linarith
  have c: "m * (x / m) = x" using m by simp
  have "m * of_int \<lfloor>x / m\<rfloor> \<le> m * (x / m)"
    using a m by (intro mult_left_mono) simp_all
  moreover have "m * (x / m) < m * (of_int \<lfloor>x / m\<rfloor> + 1)"
    using b m by (intro mult_strict_left_mono) simp_all
  ultimately have "m * of_int \<lfloor>x / m\<rfloor> \<le> x" and "x < m * (of_int \<lfloor>x / m\<rfloor> + 1)"
    unfolding c by simp_all
  then show ?thesis by (simp add: py_mod_def algebra_simps)
qed

section \<open>Verification: the harmony generator\<close>

text \<open>
  C4. For every seed hue, saturation and lightness, the harmony generator returns exactly
  five colours when the scheme name is one of complementary, analogous, triadic, tetradic
  or monochromatic, and the empty sequence for any other scheme name.
\<close>

theorem harmony_colors_count:
  "(scheme \<in> {''complementary'', ''analogous'', ''triadic'', ''tetradic'', ''monochromatic''}
      \<longrightarrow> length (generate_harmony_colors h s l scheme) = 5) \<and>
   (scheme \<notin> {''complementary'', ''analogous'', ''triadic'', ''tetradic'', ''monochromatic''}
      \<longrightarrow> generate_harmony_colors h s l scheme = [])"
  by (simp add: generate_harmony_colors_def)

theorem harmony_colors_count_witness:
  "length (generate_harmony_colors 0 1 (1 / 2) ''triadic'') = 5 \<and>
   generate_harmony_colors 0 1 (1 / 2) ''square'' = []"
  using harmony_colors_count [of "''triadic''" 0 1 "1 / 2"]
        harmony_colors_count [of "''square''" 0 1 "1 / 2"]
  by simp

text \<open>
  C5. For every seed hue \<open>h\<close> (degrees), saturation \<open>s\<close> and lightness \<open>l\<close>, the
  complementary scheme returns exactly the five colours obtained by HSL to RGB conversion
  of \<open>(h, s, l)\<close>, \<open>((h + 180) mod 360, 0.8 s, l)\<close>, \<open>(h, 0.3 s, l + 0.2)\<close>,
  \<open>((h + 180) mod 360, 0.3 s, l + 0.2)\<close> and \<open>(h, 0.1 s, l + 0.3)\<close>, in this order;
  the opposite hue lies in \<open>[0, 360)\<close> and differs from \<open>h + 180\<close> by a multiple of 360.
\<close>

theorem complementary_colors:
  "generate_harmony_colors h s l ''complementary'' =
     map (\<lambda>(h', s', l'). hsl_to_rgb h' s' l')
       [(h, s, l),
        (py_mod (h + 180) 360, 8 / 10 * s, l),
        (h, 3 / 10 * s, l + 2 / 10),
        (py_mod (h + 180) 360, 3 / 10 * s, l + 2 / 10),
        (h, 1 / 10 * s, l + 3 / 10)] \<and>
   0 \<le> py_mod (h + 180) 360 \<and> py_mod (h + 180) 360 < 360 \<and>
   (\<exists>n::int. py_mod (h + 180) 360 = h + 180 - 360 * of_int n)"
proof -
  have "\<exists>n::int. py_mod (h + 180) 360 = h + 180 - 360 * of_int n"
    unfolding py_mod_def by blast
  moreover have "0 \<le> py_mod (h + 180) 360 \<and> py_mod (h + 180) 360 < 360"
    by (rule py_mod_range) simp
  ultimately show ?thesis
    by (simp add: generate_harmony_colors_def mult.commute)
qed

text \<open>Every value of \<open>colorsys._v\<close> lies between its first two arguments.\<close>

lemma convex_between:
  fixes m1 m2 t :: real
  assumes "m1 \<le> m2" "0 \<le> t" "t \<le> 1"
  shows "m1 \<le> m1 + (m2 - m1) * t" "m1 + (m2 - m1) * t \<le> m2"
proof -
  have a: "0 \<le> (m2 - m1) * t" using assms by simp
  have "(m2 - m1) * t \<le> (m2 - m1) * 1"
    using assms by (intro mult_left_mono) simp_all
  then show "m1 + (m2 - m1) * t \<le> m2" by simp
  from a show "m1 \<le> m1 + (m2 - m1) * t" by simp
qed

lemma colorsys_v_between:
  assumes "m1 \<le> m2"
  shows "m1 \<le> colorsys_v m1 m2 hue \<and> colorsys_v m1 m2 hue \<le> m2"
proof -
  define u where "u = py_mod hue 1"
  have u: "0 \<le> u" "u < 1" using py_mod_range [of 1 hue] by (simp_all add: u_def)
  consider "u < 1 / 6" | "1 / 6 \<le> u" "u < 1 / 2" | "1 / 2 \<le> u" "u < 2 / 3" | "2 / 3 \<le> u"
    by linarith
  then show ?thesis
  proof cases
    case 1
    then have v: "colorsys_v m1 m2 hue = m1 + (m2 - m1) * (u * 6)"
      by (simp add: colorsys_v_def u_def [symmetric] ONE_SIXTH_def Let_def)
    show ?thesis unfolding v using convex_between [OF assms, of "u * 6"] u 1 by simp
  next
    case 2
    then have "colorsys_v m1 m2 hue = m2"
      by (simp add: colorsys_v_def u_def [symmetric] ONE_SIXTH_def Let_def)
    then show ?thesis using assms by simp
  next
    case 3
    then have v: "colorsys_v m1 m2 hue = m1 + (m2 - m1) * ((2 / 3 - u) * 6)"
      by (simp add: colorsys_v_def u_def [symmetric] ONE_SIXTH_def TWO_THIRD_def Let_def)
    show ?thesis unfolding v using convex_between [OF assms, of "(2 / 3 - u) * 6"] u 3 by simp
  next
    case 4
    then have "colorsys_v m1 m2 hue = m1"
      by (simp add: colorsys_v_def u_def [symmetric] ONE_SIXTH_def TWO_THIRD_def Let_def)
    then show ?thesis using assms by simp
  qed
qed

text \<open>For lightness and saturation in \<open>[0, 1]\<close>, \<open>0 \<le> m1 \<le> m2 \<le> 1\<close> in \<open>hls_to_rgb\<close>.\<close>

lemma hls_m_bounds:
  fixes l s :: real
  assumes "0 \<le> l" "l \<le> 1" "0 \<le> s" "s \<le> 1"
  defines "m2 \<equiv> (if l \<le> 1 / 2 then l * (1 + s) else l + s - l * s)"
  shows "0 \<le> 2 * l - m2" "2 * l - m2 \<le> m2" "m2 \<le> 1"
proof -
  have f1: "0 \<le> l * s" using assms(1,3) by simp
  have "l * s \<le> l * 1" using assms(1,4) by (intro mult_left_mono) simp_all
  then have f2: "l * s \<le> l" by simp
  have "l * s \<le> 1 * s" using assms(2,3) by (intro mult_right_mono) simp_all
  then have f3: "l * s \<le> s" by simp
  have "0 \<le> (1 - s) * (1 - l)" using assms(2,4) by simp
  then have f4: "s + l \<le> 1 + l * s" by (simp add: algebra_simps)
  show "0 \<le> 2 * l - m2"
    using f1 f2 f3 f4 by (cases "l \<le> 1 / 2") (simp_all add: m2_def algebra_simps)
  show "2 * l - m2 \<le> m2"
    using f1 f2 f3 f4 by (cases "l \<le> 1 / 2") (simp_all add: m2_def algebra_simps)
  show "m2 \<le> 1"
    using f1 f2 f3 f4 by (cases "l \<le> 1 / 2") (simp_all add: m2_def algebra_simps)
qed

lemma py_int_255: "0 \<le> x \<Longrightarrow> x \<le> 1 \<Longrightarrow> 0 \<le> py_int (x * 255) \<and> py_int (x * 255) \<le> 255"
proof -
  assume a: "0 \<le> x" "x \<le> 1"
  then have "0 \<le> x * 255" "x * 255 \<le> 255" by simp_all
  then have "0 \<le> \<lfloor>x * 255\<rfloor>" "\<lfloor>x * 255\<rfloor> \<le> 255" by (simp_all add: floor_le_iff)
  with \<open>0 \<le> x * 255\<close> show ?thesis by (simp add: py_int_def)
qed

lemma hsl_to_rgb_valid:
  assumes "0 \<le> s" "s \<le> 1" "0 \<le> l" "l \<le> 1"
  shows "valid_rgb (hsl_to_rgb h s l)"
proof (cases "s = 0")
  case True
  then show ?thesis
    using py_int_255 [of l] assms by (simp add: hsl_to_rgb_def hls_to_rgb_def valid_rgb_def)
next
  case False
  define m2 where "m2 = (if l \<le> 1 / 2 then l * (1 + s) else l + s - l * s)"
  define m1 where "m1 = 2 * l - m2"
  have b: "0 \<le> m1" "m1 \<le> m2" "m2 \<le> 1"
    using hls_m_bounds [of l s] assms by (simp_all add: m1_def m2_def)
  have v: "0 \<le> colorsys_v m1 m2 x \<and> colorsys_v m1 m2 x \<le> 1" for x
    using colorsys_v_between [OF b(2), of x] b by linarith
  have "hsl_to_rgb h s l =
      (py_int (colorsys_v m1 m2 (h / 360 + ONE_THIRD) * 255),
       py_int (colorsys_v m1 m2 (h / 360) * 255),
       py_int (colorsys_v m1 m2 (h / 360 - ONE_THIRD) * 255))"
    using False by (simp add: hsl_to_rgb_def hls_to_rgb_def Let_def m1_def m2_def)
  then show ?thesis
    using py_int_255 [of "colorsys_v m1 m2 (h / 360 + ONE_THIRD)"]
      py_int_255 [of "colorsys_v m1 m2 (h / 360)"]
      py_int_255 [of "colorsys_v m1 m2 (h / 360 - ONE_THIRD)"] v
    by (simp add: valid_rgb_def)
qed

text \<open>
  C2 (as stated: for every seed hue, and saturation and lightness in \<open>[0, 1]\<close>, and every
  named scheme, the saturation and lightness passed to the conversion are clamped to
  \<open>[0, 1]\<close>, so every channel of every generated colour lies in \<open>[0, 255]\<close>).
  The generator does not clamp: for the grey seed of lightness \<open>0.75\<close> the complementary
  scheme passes the lightness \<open>1.05\<close> and returns the channel value 267.
\<close>

theorem harmony_colors_unclamped:
  "generate_harmony_colors 0 0 (3 / 4) ''complementary'' =
     [(191, 191, 191), (191, 191, 191), (242, 242, 242), (242, 242, 242), (267, 267, 267)] \<and>
   \<not> list_all valid_rgb (generate_harmony_colors 0 0 (3 / 4) ''complementary'')"
  by (simp add: generate_harmony_colors_def hsl_to_rgb_def hls_to_rgb_def py_int_def
      valid_rgb_def)

text \<open>
  C2 (amended). The generator passes the scaled saturation and the raised lightness to the
  conversion as they are. For a seed saturation in \<open>[0, 1]\<close> and a seed lightness \<open>l \<ge> 0\<close>
  such that the largest lightness of the scheme, \<open>l + d\<close>, is at most 1 (\<open>d\<close> is 0.4 for
  monochromatic, 0.3 for complementary and tetradic, 0.2 for triadic, 0.1 for analogous),
  every channel of every generated colour lies in \<open>[0, 255]\<close>, for every hue.
\<close>

theorem harmony_colors_in_range:
  assumes "0 \<le> s" "s \<le> 1" "0 \<le> l"
    and "l + (if scheme = ''monochromatic'' then 4 / 10
              else if scheme = ''complementary'' \<or> scheme = ''tetradic'' then 3 / 10
              else if scheme = ''triadic'' then 2 / 10 else 1 / 10) \<le> 1"
  shows "\<forall>c\<in>set (generate_harmony_colors h s l scheme). valid_rgb c"
proof -
  note b = assms(1-3)
  show ?thesis
  proof (cases "scheme = ''complementary''")
    case True
    with assms(4) have "l + 3 / 10 \<le> 1" by simp
    then show ?thesis using True b by (simp add: generate_harmony_colors_def hsl_to_rgb_valid)
  next
    case n1: False
    show ?thesis
    proof (cases "scheme = ''analogous''")
      case True
      with assms(4) have "l + 1 / 10 \<le> 1" by simp
      then show ?thesis using True b by (simp add: generate_harmony_colors_def hsl_to_rgb_valid)
    next
      case n2: False
      show ?thesis
      proof (cases "scheme = ''triadic''")
        case True
        with assms(4) have "l + 2 / 10 \<le> 1" by simp
        then show ?thesis using True b by (simp add: generate_harmony_colors_def hsl_to_rgb_valid)
      next
        case n3: False
        show ?thesis
        proof (cases "scheme = ''tetradic''")
          case True
          with assms(4) have "l + 3 / 10 \<le> 1" by simp
          then show ?thesis using True b by (simp add: generate_harmony_colors_def hsl_to_rgb_valid)
        next
          case n4: False
          show ?thesis
          proof (cases "scheme = ''monochromatic''")
            case True
            with assms(4) have "l + 4 / 10 \<le> 1" by simp
            then show ?thesis using True b by (simp add: generate_harmony_colors_def hsl_to_rgb_valid)
          next
            case False
            with n1 n2 n3 n4 show ?thesis by (simp add: generate_harmony_colors_def)
          qed
        qed
      qed
    qed
  qed
qed

theorem harmony_colors_in_range_witness:
  "list_all valid_rgb (generate_harmony_colors 210 1 (6 / 10) ''monochromatic'')"
  using harmony_colors_in_range [of 1 "6 / 10" "''monochromatic''" 210]
  by (simp add: list_all_iff)

section \<open>Verification: the converter\<close>

text \<open>
  C9. \<open>rgbToCmyk\<close> is total: its divisions by \<open>1 - k\<close> never raise, because the case
  \<open>k = 1\<close> (largest channel 0) returns \<open>{c: 0, m: 0, y: 0, k: 100}\<close> before them; on
  \<open>(255, 255, 255)\<close> it returns \<open>{c: 0, m: 0, y: 0, k: 0}\<close>.
\<close>

theorem rgb_to_cmyk_total:
  "(\<exists>c. rgb_to_cmyk (r, g, b) = Inr c) \<and>
   (max r (max g b) = 0 \<longrightarrow>
      rgb_to_cmyk (r, g, b) = Inr \<lparr>cmyk_c = 0, cmyk_m = 0, cmyk_y = 0, cmyk_k = 100\<rparr>) \<and>
   rgb_to_cmyk (255, 255, 255) = Inr \<lparr>cmyk_c = 0, cmyk_m = 0, cmyk_y = 0, cmyk_k = 0\<rparr>"
proof -
  have "\<exists>c. rgb_to_cmyk (r, g, b) = Inr c"
    by (auto simp: rgb_to_cmyk_def py_div_def Let_def)
  moreover have "max r (max g b) = 0 \<longrightarrow>
      rgb_to_cmyk (r, g, b) = Inr \<lparr>cmyk_c = 0, cmyk_m = 0, cmyk_y = 0, cmyk_k = 100\<rparr>"
  proof
    assume "max r (max g b) = 0"
    then have "max (real_of_int r / 255) (max (real_of_int g / 255) (real_of_int b / 255)) = 0"
      by (auto simp: max_def split: if_splits)
    then show "rgb_to_cmyk (r, g, b) = Inr \<lparr>cmyk_c = 0, cmyk_m = 0, cmyk_y = 0, cmyk_k = 100\<rparr>"
      by (simp add: rgb_to_cmyk_def Let_def)
  qed
  moreover have "rgb_to_cmyk (255, 255, 255) = Inr \<lparr>cmyk_c = 0, cmyk_m = 0, cmyk_y = 0, cmyk_k = 0\<rparr>"
    by (simp add: rgb_to_cmyk_def py_div_def Let_def py_int_def)
  ultimately show ?thesis by blast
qed

theorem rgb_to_cmyk_total_witness:
  "rgb_to_cmyk (0, 0, 0) = Inr \<lparr>cmyk_c = 0, cmyk_m = 0, cmyk_y = 0, cmyk_k = 100\<rparr>"
  using rgb_to_cmyk_total [of 0 0 0] by simp

section \<open>Verification: the pipelines\<close>

text \<open>
  C10. Given an empty list of dominant colours, \<open>generate_palette\<close> raises nothing: it
  returns a palette whose colour list is empty and which carries a generated (non-empty)
  name, the style, mood and lighting it was given, and the timestamp; whereas
  \<open>generate_harmony_palette\<close> rejects an empty list of base colours with a \<open>ValueError\<close>.
\<close>

theorem generate_palette_empty:
  "generate_palette draws now [] style0 mood0 lighting0 =
     Inr \<lparr>name = generate_palette_name draws [] mood0 style0, colors = [], harmony_type = None,
          style = style0, mood = mood0, lighting = lighting0, created_at = now\<rparr> \<and>
   generate_palette_name draws [] mood0 style0 \<noteq> [] \<and>
   generate_harmony_palette draws now [] scheme0 style0 mood0 lighting0 =
     Inl (ValueError ''No base colors provided'')"
  by (simp add: generate_palette_def select_style_colors_def apply_style_mood_lighting_def
      assign_color_roles_def generate_harmony_palette_def generate_palette_name_def Let_def)

section \<open>Verification: the adjuster\<close>

text \<open>
  C3 (for every list of palette colours and every lighting name, \<open>adjust_for_lighting\<close>
  computes the same adjusted RGB as \<open>_apply_style_mood_lighting\<close> with a zero-effect mood
  and the same lighting). The two differ near the hue boundary: for \<open>(255, 0, 25)\<close>, whose
  hue is above 0.98, under \<open>warm_light\<close> the pipeline step leaves the hue alone and returns
  \<open>(229, 0, 22)\<close>, whereas \<open>adjust_for_lighting\<close> moves the hue to 1 and returns
  \<open>(229, 0, 0)\<close>.
\<close>

theorem lighting_paths_differ:
  "apply_style_mood_lighting [(255, 0, 25)] ''scandinavian'' ''neutral'' ''warm_light'' =
     Inr [(229, 0, 22)] \<and>
   adjust_for_lighting
     [\<lparr>rgb = (255, 0, 25), hex = ''#ff0019'', hsl = \<lparr>hsl_h = 354, hsl_s = 100, hsl_l = 50\<rparr>,
       cmyk = \<lparr>cmyk_c = 0, cmyk_m = 100, cmyk_y = 90, cmyk_k = 0\<rparr>,
       role = ''Primary'', locked = False\<rparr>] ''warm_light'' =
     Inr [\<lparr>rgb = (229, 0, 0), hex = ''#e50000'', hsl = \<lparr>hsl_h = 354, hsl_s = 100, hsl_l = 50\<rparr>,
       cmyk = \<lparr>cmyk_c = 0, cmyk_m = 100, cmyk_y = 90, cmyk_k = 0\<rparr>,
       role = ''Primary'', locked = False\<rparr>]"
  by code_simp

lemma select_loop_filter:
  "select_loop rule dcs acc = acc @ map rgb (filter (fits_style rule) dcs)"
  by (induction dcs arbitrary: acc) simp_all

text \<open>
  C6. For every ranked sequence of dominant colours and every style name, seed selection
  returns exactly the colours whose saturation and lightness fractions lie within the
  style's saturation and lightness ranges (bounds included), in their order; if no colour
  qualifies it returns the first three colours of the sequence; and an unknown style name
  is evaluated under the ranges of \<open>scandinavian\<close>, which are \<open>[0.1, 0.4]\<close> for the
  saturation and \<open>[0.75, 0.95]\<close> for the lightness.
\<close>

theorem select_style_colors_spec:
  "select_style_colors dcs style_name =
     (let rule = (case style_rules style_name of Some r \<Rightarrow> r
                  | None \<Rightarrow> the (style_rules ''scandinavian''));
          qualifying = filter (\<lambda>c.
             fst (saturation_range rule) \<le> real_of_int (hsl_s (hsl c)) / 100 \<and>
             real_of_int (hsl_s (hsl c)) / 100 \<le> snd (saturation_range rule) \<and>
             fst (lightness_range rule) \<le> real_of_int (hsl_l (hsl c)) / 100 \<and>
             real_of_int (hsl_l (hsl c)) / 100 \<le> snd (lightness_range rule)) dcs
      in if qualifying = [] then map rgb (take 3 dcs) else map rgb qualifying) \<and>
   (style_rules style_name = None \<longrightarrow>
      select_style_colors dcs style_name = select_style_colors dcs ''scandinavian'') \<and>
   style_rules ''scandinavian'' \<noteq> None \<and>
   saturation_range (the (style_rules ''scandinavian'')) = (1 / 10, 4 / 10) \<and>
   lightness_range (the (style_rules ''scandinavian'')) = (75 / 100, 95 / 100)"
proof -
  have scand: "style_rules ''scandinavian'' \<noteq> None \<and>
      saturation_range (the (style_rules ''scandinavian'')) = (1 / 10, 4 / 10) \<and>
      lightness_range (the (style_rules ''scandinavian'')) = (75 / 100, 95 / 100)"
    by (simp add: style_rules_def)
  have fits: "fits_style rule = (\<lambda>c.
             fst (saturation_range rule) \<le> real_of_int (hsl_s (hsl c)) / 100 \<and>
             real_of_int (hsl_s (hsl c)) / 100 \<le> snd (saturation_range rule) \<and>
             fst (lightness_range rule) \<le> real_of_int (hsl_l (hsl c)) / 100 \<and>
             real_of_int (hsl_l (hsl c)) / 100 \<le> snd (lightness_range rule))" for rule :: style_rule
    by (rule ext) (simp add: fits_style_def Let_def split: prod.splits)
  have dflt: "style_rules style_name = None \<longrightarrow>
      select_style_colors dcs style_name = select_style_colors dcs ''scandinavian''"
    by (simp add: select_style_colors_def dict_get_def style_rules_def)
  have main: "select_style_colors dcs style_name =
     (let rule = (case style_rules style_name of Some r \<Rightarrow> r
                  | None \<Rightarrow> the (style_rules ''scandinavian''));
          qualifying = filter (fits_style rule) dcs
      in if qualifying = [] then map rgb (take 3 dcs) else map rgb qualifying)"
    by (simp add: select_style_colors_def select_loop_filter dict_get_def Let_def)
  show ?thesis
    unfolding fits [symmetric] using main dflt scand by blast
qed

theorem select_style_colors_spec_witness:
  "select_style_colors
     [\<lparr>rgb = (230, 204, 178), hex = ''#e6ccb2'', hsl = \<lparr>hsl_h = 30, hsl_s = 50, hsl_l = 80\<rparr>,
       cmyk = \<lparr>cmyk_c = 0, cmyk_m = 11, cmyk_y = 22, cmyk_k = 9\<rparr>, frequency = 6 / 10, rank = 1\<rparr>,
      \<lparr>rgb = (209, 217, 224), hex = ''#d1d9e0'', hsl = \<lparr>hsl_h = 208, hsl_s = 20, hsl_l = 85\<rparr>,
       cmyk = \<lparr>cmyk_c = 6, cmyk_m = 3, cmyk_y = 0, cmyk_k = 12\<rparr>, frequency = 4 / 10, rank = 2\<rparr>]
     ''bauhaus'' = [(209, 217, 224)] \<and>
   select_style_colors
     [\<lparr>rgb = (230, 204, 178), hex = ''#e6ccb2'', hsl = \<lparr>hsl_h = 30, hsl_s = 50, hsl_l = 80\<rparr>,
       cmyk = \<lparr>cmyk_c = 0, cmyk_m = 11, cmyk_y = 22, cmyk_k = 9\<rparr>, frequency = 6 / 10, rank = 1\<rparr>,
      \<lparr>rgb = (209, 217, 224), hex = ''#d1d9e0'', hsl = \<lparr>hsl_h = 208, hsl_s = 20, hsl_l = 85\<rparr>,
       cmyk = \<lparr>cmyk_c = 6, cmyk_m = 3, cmyk_y = 0, cmyk_k = 12\<rparr>, frequency = 4 / 10, rank = 2\<rparr>]
     ''scandinavian'' = [(209, 217, 224)] \<and>
   select_style_colors
     [\<lparr>rgb = (230, 204, 178), hex = ''#e6ccb2'', hsl = \<lparr>hsl_h = 30, hsl_s = 50, hsl_l = 80\<rparr>,
       cmyk = \<lparr>cmyk_c = 0, cmyk_m = 11, cmyk_y = 22, cmyk_k = 9\<rparr>, frequency = 1, rank = 1\<rparr>]
     ''scandinavian'' = [(230, 204, 178)]"
proof -
  let ?c1 = "\<lparr>rgb = (230, 204, 178), hex = ''#e6ccb2'', hsl = \<lparr>hsl_h = 30, hsl_s = 50, hsl_l = 80\<rparr>,
       cmyk = \<lparr>cmyk_c = 0, cmyk_m = 11, cmyk_y = 22, cmyk_k = 9\<rparr>, frequency = 6 / 10, rank = 1\<rparr>"
  let ?c2 = "\<lparr>rgb = (209, 217, 224), hex = ''#d1d9e0'', hsl = \<lparr>hsl_h = 208, hsl_s = 20, hsl_l = 85\<rparr>,
       cmyk = \<lparr>cmyk_c = 6, cmyk_m = 3, cmyk_y = 0, cmyk_k = 12\<rparr>, frequency = 4 / 10, rank = 2\<rparr>"
  let ?c3 = "\<lparr>rgb = (230, 204, 178), hex = ''#e6ccb2'', hsl = \<lparr>hsl_h = 30, hsl_s = 50, hsl_l = 80\<rparr>,
       cmyk = \<lparr>cmyk_c = 0, cmyk_m = 11, cmyk_y = 22, cmyk_k = 9\<rparr>, frequency = 1, rank = 1\<rparr>"
  note t = select_style_colors_spec [of "[?c1, ?c2]" "''bauhaus''"]
  note u = select_style_colors_spec [of "[?c3]" "''scandinavian''"]
  have a: "select_style_colors [?c1, ?c2] ''bauhaus'' = [(209, 217, 224)]"
    using t [THEN conjunct1] by (simp add: style_rules_def)
  have ab: "select_style_colors [?c1, ?c2] ''bauhaus'' = select_style_colors [?c1, ?c2] ''scandinavian''"
    using t [THEN conjunct2, THEN conjunct1] by (simp add: style_rules_def)
  have b: "select_style_colors [?c1, ?c2] ''scandinavian'' = [(209, 217, 224)]"
    by (rule trans [OF ab [symmetric] a])
  have c: "select_style_colors [?c3] ''scandinavian'' = [(230, 204, 178)]"
    using u [THEN conjunct1] by (simp add: style_rules_def)
  from a b c show ?thesis by (intro conjI)
qed

section \<open>Verification: the extreme-colour filter\<close>

lemma mask_select: "map fst (filter snd (zip xs (map P xs))) = filter P xs"
  by (induction xs) simp_all

lemma tenth: "(real a < real n * (1 / 10)) = (10 * a < n)"
  by linarith

text \<open>
  C7. For every list of pixels, the extreme-colour filter (with its default thresholds)
  keeps exactly the pixels whose mean channel brightness is strictly greater than 30 and
  strictly less than 225, in their order; and if the kept pixels number fewer than 10% of
  the pixels, the full unfiltered list is returned instead.
\<close>

theorem filter_extreme_colors_spec:
  "filter_extreme_colors pixels 30 225 =
     (let kept = filter (\<lambda>p. 30 < brightness p \<and> brightness p < 225) pixels
      in if 10 * length kept < length pixels then pixels else kept)"
  unfolding filter_extreme_colors_def Let_def mask_select tenth by simp

theorem filter_extreme_colors_spec_witness:
  "filter_extreme_colors
     [(10, 10, 10), (100, 100, 100), (30, 30, 30), (91, 0, 0), (250, 250, 250), (225, 225, 224)]
     30 225 = [(100, 100, 100), (91, 0, 0), (225, 225, 224)] \<and>
   filter_extreme_colors
     [(0, 0, 0), (1, 1, 1), (2, 2, 2), (3, 3, 3), (4, 4, 4), (5, 5, 5), (6, 6, 6),
      (7, 7, 7), (8, 8, 8), (9, 9, 9), (100, 100, 100)] 30 225 =
     [(0, 0, 0), (1, 1, 1), (2, 2, 2), (3, 3, 3), (4, 4, 4), (5, 5, 5), (6, 6, 6),
      (7, 7, 7), (8, 8, 8), (9, 9, 9), (100, 100, 100)]"
  using filter_extreme_colors_spec
      [of "[(10, 10, 10), (100, 100, 100), (30, 30, 30), (91, 0, 0), (250, 250, 250), (225, 225, 224)]"]
    filter_extreme_colors_spec
      [of "[(0, 0, 0), (1, 1, 1), (2, 2, 2), (3, 3, 3), (4, 4, 4), (5, 5, 5), (6, 6, 6),
            (7, 7, 7), (8, 8, 8), (9, 9, 9), (100, 100, 100)]"]
  by (simp add: brightness_def)

section \<open>Verification: the assembler\<close>

lemma rgb_to_hls_grey:
  "min r (min g b) = max r (max g b) \<Longrightarrow>
     rgb_to_hls r g b = Inr (0, (max r (max g b) + min r (min g b)) / 2, 0)"
  unfolding rgb_to_hls_def Let_def by (simp only: if_True refl)

lemma rgb_to_hls_color:
  fixes r g b :: real
  defines "mx \<equiv> max r (max g b)" and "mn \<equiv> min r (min g b)"
  assumes ne: "mn \<noteq> mx" and s0: "mx + mn \<noteq> 0" and s2: "2 - mx - mn \<noteq> 0"
  shows "rgb_to_hls r g b =
     Inr (py_mod ((if r = mx then (mx - b) / (mx - mn) - (mx - g) / (mx - mn)
                   else if g = mx then 2 + (mx - r) / (mx - mn) - (mx - b) / (mx - mn)
                   else 4 + (mx - g) / (mx - mn) - (mx - r) / (mx - mn)) / 6) 1,
          (mx + mn) / 2,
          if (mx + mn) / 2 \<le> 1 / 2 then (mx - mn) / (mx + mn) else (mx - mn) / (2 - mx - mn))"
  unfolding rgb_to_hls_def Let_def mx_def [symmetric] mn_def [symmetric] py_div_def
  using ne s0 s2 by (simp only: if_False if_True sum.case split: if_splits) simp

text \<open>On channels in \<open>[0, 1]\<close> neither division of \<open>rgb_to_hls\<close> has a zero divisor.\<close>

lemma rgb_to_hls_unit:
  assumes "0 \<le> r" "r \<le> 1" "0 \<le> g" "g \<le> 1" "0 \<le> b" "b \<le> 1"
  shows "\<exists>x. rgb_to_hls r g b = Inr x"
proof -
  define mx where "mx = max r (max g b)"
  define mn where "mn = min r (min g b)"
  have mx: "mx \<le> 1" and mn: "0 \<le> mn" and le: "mn \<le> mx"
    using assms unfolding mx_def mn_def by auto
  show ?thesis
  proof (cases "mn = mx")
    case True
    then show ?thesis
      using rgb_to_hls_grey [of r g b] unfolding mx_def mn_def by blast
  next
    case False
    with le have lt: "mn < mx" by simp
    have s0: "mx + mn \<noteq> 0" using lt mn by simp
    have s2: "2 - mx - mn \<noteq> 0" using lt mx by simp
    show ?thesis
      using rgb_to_hls_color [of r g b] False s0 s2 unfolding mx_def mn_def by blast
  qed
qed

lemma rgb_to_hsl_valid: "valid_rgb c \<Longrightarrow> \<exists>x. rgb_to_hsl c = Inr x"
proof -
  assume v: "valid_rgb c"
  obtain r g b where c: "c = (r, g, b)" by (cases c) auto
  from v c have "\<exists>x. rgb_to_hls (real_of_int r / 255) (real_of_int g / 255) (real_of_int b / 255) = Inr x"
    by (intro rgb_to_hls_unit) (simp_all add: valid_rgb_def)
  then show ?thesis by (auto simp: rgb_to_hsl_def c)
qed

lemma rgb_to_cmyk_Inr: "\<exists>x. rgb_to_cmyk c = Inr x"
  by (cases c) (auto simp: rgb_to_cmyk_def py_div_def Let_def)

lemma assign_loop_total:
  "\<forall>c\<in>set cs. valid_rgb c \<Longrightarrow> \<exists>pal. assign_loop i cs acc = Inr pal"
proof (induction cs arbitrary: i acc)
  case Nil
  then show ?case by simp
next
  case (Cons c cs)
  from Cons.prems have "valid_rgb c" by simp
  then obtain x where x: "rgb_to_hsl c = Inr x" using rgb_to_hsl_valid by blast
  obtain y where y: "rgb_to_cmyk c = Inr y" using rgb_to_cmyk_Inr by blast
  from Cons.prems have "\<forall>c\<in>set cs. valid_rgb c" by simp
  from Cons.IH [OF this] show ?case by (simp add: x y Let_def)
qed

lemma assign_loop_result:
  "assign_loop i cs acc = Inr pal \<Longrightarrow>
     \<exists>new. pal = acc @ new \<and> length new = length cs \<and>
       (\<forall>j<length cs. rgb (new ! j) = cs ! j \<and> role (new ! j) = role_for (i + j) \<and>
          \<not> locked (new ! j))"
proof (induction cs arbitrary: i acc)
  case Nil
  then show ?case by simp
next
  case (Cons c cs)
  obtain x where x: "rgb_to_hsl c = Inr x"
    using Cons.prems by (cases "rgb_to_hsl c") (simp_all add: Let_def)
  obtain y where y: "rgb_to_cmyk c = Inr y"
    using rgb_to_cmyk_Inr by blast
  let ?e = "\<lparr>rgb = c, hex = rgb_to_hex c, hsl = x, cmyk = y, role = role_for i, locked = False\<rparr>"
  have rest: "assign_loop (i + 1) cs (acc @ [?e]) = Inr pal"
    using Cons.prems unfolding assign_loop.simps Let_def x y by simp
  from Cons.IH [OF rest] obtain new where
    new: "pal = (acc @ [?e]) @ new" "length new = length cs"
      "\<forall>j<length cs. rgb (new ! j) = cs ! j \<and> role (new ! j) = role_for (i + 1 + j) \<and>
          \<not> locked (new ! j)"
    by blast
  have "\<forall>j<length (c # cs). rgb ((?e # new) ! j) = (c # cs) ! j \<and>
          role ((?e # new) ! j) = role_for (i + j) \<and> \<not> locked ((?e # new) ! j)"
  proof (intro allI impI)
    fix j assume j: "j < length (c # cs)"
    show "rgb ((?e # new) ! j) = (c # cs) ! j \<and>
          role ((?e # new) ! j) = role_for (i + j) \<and> \<not> locked ((?e # new) ! j)"
    proof (cases j)
      case 0
      then show ?thesis by simp
    next
      case (Suc k)
      with j have "k < length cs" by simp
      with new(3) Suc show ?thesis by simp
    qed
  qed
  with new(1,2) show ?case
    by (intro exI [of _ "?e # new"]) simp
qed

text \<open>
  C8. For every ordered sequence of N RGB colours (channels in \<open>[0, 255]\<close>), palette
  assembly returns N entries in the same order; the entry at position \<open>i\<close> has the role
  Primary, Secondary, Accent, Neutral, Background for \<open>i = 0..4\<close> and \<open>Color {i+1}\<close> for
  \<open>i \<ge> 5\<close>, and every entry has \<open>locked = false\<close>. (On any sequence for which assembly
  returns at all, the entries have these properties.)
\<close>

theorem assign_color_roles_spec:
  "((\<forall>c\<in>set cs. valid_rgb c) \<longrightarrow> (\<exists>pal. assign_color_roles cs = Inr pal)) \<and>
   (\<forall>pal. assign_color_roles cs = Inr pal \<longrightarrow>
      length pal = length cs \<and>
      (\<forall>i<length cs.
         rgb (pal ! i) = cs ! i \<and>
         role (pal ! i) =
           (if i < 5 then [''Primary'', ''Secondary'', ''Accent'', ''Neutral'', ''Background''] ! i
            else ''Color '' @ str_of_nat (i + 1)) \<and>
         \<not> locked (pal ! i)))"
proof (intro conjI allI impI)
  assume "\<forall>c\<in>set cs. valid_rgb c"
  then show "\<exists>pal. assign_color_roles cs = Inr pal"
    unfolding assign_color_roles_def by (rule assign_loop_total)
next
  fix pal assume "assign_color_roles cs = Inr pal"
  then have *: "\<exists>new. pal = [] @ new \<and> length new = length cs \<and>
       (\<forall>j<length cs. rgb (new ! j) = cs ! j \<and> role (new ! j) = role_for (0 + j) \<and>
          \<not> locked (new ! j))"
    unfolding assign_color_roles_def by (rule assign_loop_result)
  then show "length pal = length cs" by auto
  fix i assume "i < length cs"
  with * show "rgb (pal ! i) = cs ! i" by auto
  from * \<open>i < length cs\<close> show "role (pal ! i) =
           (if i < 5 then [''Primary'', ''Secondary'', ''Accent'', ''Neutral'', ''Background''] ! i
            else ''Color '' @ str_of_nat (i + 1))" by (auto simp: role_for_def roles_def)
  from * \<open>i < length cs\<close> show "\<not> locked (pal ! i)" by auto
qed

theorem assign_color_roles_spec_witness:
  "\<exists>pal. assign_color_roles
       [(255, 0, 0), (0, 255, 0), (0, 0, 255), (10, 20, 30), (200, 200, 200), (1, 2, 3),
        (255, 255, 255)] = Inr pal \<and>
     length pal = 7 \<and>
     role (pal ! 0) = ''Primary'' \<and> role (pal ! 1) = ''Secondary'' \<and>
     role (pal ! 2) = ''Accent'' \<and> role (pal ! 3) = ''Neutral'' \<and>
     role (pal ! 4) = ''Background'' \<and> role (pal ! 5) = ''Color 6'' \<and>
     role (pal ! 6) = ''Color 7'' \<and> rgb (pal ! 5) = (1, 2, 3) \<and> \<not> locked (pal ! 6)"
proof -
  let ?cs = "[(255, 0, 0), (0, 255, 0), (0, 0, 255), (10, 20, 30), (200, 200, 200), (1, 2, 3),
        (255, 255, 255)] :: rgb list"
  have v: "\<forall>c\<in>set ?cs. valid_rgb c" by (simp add: valid_rgb_def)
  from assign_color_roles_spec [of ?cs] v obtain pal where p: "assign_color_roles ?cs = Inr pal"
    by blast
  from assign_color_roles_spec [of ?cs] p have q: "length pal = length ?cs \<and>
      (\<forall>i<length ?cs.
         rgb (pal ! i) = ?cs ! i \<and>
         role (pal ! i) =
           (if i < 5 then [''Primary'', ''Secondary'', ''Accent'', ''Neutral'', ''Background''] ! i
            else ''Color '' @ str_of_nat (i + 1)) \<and>
         \<not> locked (pal ! i))"
    by blast
  then have len: "length pal = 7" by simp
  note r = q [THEN conjunct2, rule_format]
  have "role (pal ! 0) = ''Primary''" using r [of 0] by simp
  moreover have "role (pal ! 1) = ''Secondary''" using r [of 1] by simp
  moreover have "role (pal ! 2) = ''Accent''" using r [of 2] by simp
  moreover have "role (pal ! 3) = ''Neutral''" using r [of 3] by simp
  moreover have "role (pal ! 4) = ''Background''" using r [of 4] by simp
  moreover have "role (pal ! 5) = ''Color 6''" using r [of 5] by (simp add: dec_digit_def)
  moreover have "role (pal ! 6) = ''Color 7''" using r [of 6] by (simp add: dec_digit_def)
  moreover have "rgb (pal ! 5) = (1, 2, 3)" using r [of 5] by simp
  moreover have "\<not> locked (pal ! 6)" using r [of 6] by simp
  ultimately show ?thesis using p len by blast
qed

section \<open>Verification: the HSL round trip\<close>

text \<open>
  \<open>colorsys._v\<close> interpolates between \<open>m1\<close> and \<open>m2\<close> along the trapezoid, and every
  channel that \<open>hls_to_rgb\<close> returns is \<open>l + s (1 - |2l - 1|) (t - 1/2)\<close> for the
  trapezoid value \<open>t\<close> of the channel's hue.
\<close>

lemma py_mod_1_shift: "real_of_int k \<le> x \<Longrightarrow> x < real_of_int k + 1 \<Longrightarrow> py_mod x 1 = x - real_of_int k"
proof -
  assume "real_of_int k \<le> x" "x < real_of_int k + 1"
  then have "\<lfloor>x\<rfloor> = k" by linarith
  then show ?thesis by (simp add: py_mod_def)
qed

lemma trapezoid_cases:
  "u < 1 / 6 \<Longrightarrow> 0 \<le> u \<Longrightarrow> trapezoid u = 6 * u"
  "1 / 6 \<le> u \<Longrightarrow> u \<le> 1 / 2 \<Longrightarrow> trapezoid u = 1"
  "1 / 2 \<le> u \<Longrightarrow> u < 2 / 3 \<Longrightarrow> trapezoid u = 4 - 6 * u"
  "2 / 3 \<le> u \<Longrightarrow> trapezoid u = 0"
  by (simp_all add: trapezoid_def max_def min_def)

lemma colorsys_v_trapezoid:
  "colorsys_v m1 m2 x = m1 + (m2 - m1) * trapezoid (py_mod x 1)"
proof -
  define u where "u = py_mod x 1"
  have u: "0 \<le> u" "u < 1" using py_mod_range [of 1 x] by (simp_all add: u_def)
  consider "u < 1 / 6" | "1 / 6 \<le> u" "u < 1 / 2" | "1 / 2 \<le> u" "u < 2 / 3" | "2 / 3 \<le> u"
    by linarith
  then show ?thesis
  proof cases
    case 1
    then show ?thesis using u trapezoid_cases(1) [of u]
      by (simp add: colorsys_v_def u_def [symmetric] ONE_SIXTH_def Let_def)
  next
    case 2
    then show ?thesis using trapezoid_cases(2) [of u]
      by (simp add: colorsys_v_def u_def [symmetric] ONE_SIXTH_def Let_def)
  next
    case 3
    then have t: "trapezoid u = 4 - 6 * u" by (rule trapezoid_cases(3))
    have "(m2 - m1) * (2 / 3 - u) * 6 = (m2 - m1) * (4 - 6 * u)" by (simp add: field_simps)
    with 3 show ?thesis
      by (simp add: colorsys_v_def u_def [symmetric] ONE_SIXTH_def TWO_THIRD_def Let_def t)
  next
    case 4
    then show ?thesis using trapezoid_cases(4) [of u]
      by (simp add: colorsys_v_def u_def [symmetric] ONE_SIXTH_def TWO_THIRD_def Let_def)
  qed
qed

lemma hls_to_rgb_closed:
  "hls_to_rgb h l s =
     (channel l s (trapezoid (py_mod (h + 1 / 3) 1)),
      channel l s (trapezoid (py_mod h 1)),
      channel l s (trapezoid (py_mod (h - 1 / 3) 1)))"
proof (cases "s = 0")
  case True
  then show ?thesis by (simp add: hls_to_rgb_def channel_def)
next
  case False
  define m2 where "m2 = (if l \<le> 1 / 2 then l * (1 + s) else l + s - l * s)"
  have w: "m2 - l = s * chroma_width l / 2"
    by (cases "l \<le> 1 / 2") (simp_all add: m2_def chroma_width_def algebra_simps)
  have c: "(2 * l - m2) + (m2 - (2 * l - m2)) * t = channel l s t" for t
  proof -
    have "(2 * l - m2) + (m2 - (2 * l - m2)) * t = l + (m2 - l) * (2 * t - 1)"
      by (simp add: algebra_simps)
    also have "\<dots> = channel l s t" unfolding w channel_def by (simp add: field_simps)
    finally show ?thesis .
  qed
  show ?thesis
    using False unfolding hls_to_rgb_def Let_def m2_def [symmetric] colorsys_v_trapezoid c ONE_THIRD_def
    by simp
qed

text \<open>The trapezoid on the pieces of one turn, and the six sectors of the hue circle.\<close>

lemma trapezoid_pieces:
  "0 \<le> u \<Longrightarrow> u \<le> 1 / 6 \<Longrightarrow> trapezoid u = 6 * u"
  "1 / 6 \<le> u \<Longrightarrow> u \<le> 1 / 2 \<Longrightarrow> trapezoid u = 1"
  "1 / 2 \<le> u \<Longrightarrow> u \<le> 2 / 3 \<Longrightarrow> trapezoid u = 4 - 6 * u"
  "2 / 3 \<le> u \<Longrightarrow> trapezoid u = 0"
  by (simp_all add: trapezoid_def max_def min_def)

lemma hue_wave_at:
  "real_of_int k \<le> x \<Longrightarrow> x \<le> real_of_int k + 1 / 6 \<Longrightarrow> hue_wave x = 6 * (x - real_of_int k)"
  "real_of_int k + 1 / 6 \<le> x \<Longrightarrow> x \<le> real_of_int k + 1 / 2 \<Longrightarrow> hue_wave x = 1"
  "real_of_int k + 1 / 2 \<le> x \<Longrightarrow> x \<le> real_of_int k + 2 / 3 \<Longrightarrow> hue_wave x = 4 - 6 * (x - real_of_int k)"
  "real_of_int k + 2 / 3 \<le> x \<Longrightarrow> x < real_of_int k + 1 \<Longrightarrow> hue_wave x = 0"
proof -
  show "real_of_int k \<le> x \<Longrightarrow> x \<le> real_of_int k + 1 / 6 \<Longrightarrow> hue_wave x = 6 * (x - real_of_int k)"
    using py_mod_1_shift [of k x] trapezoid_pieces(1) [of "x - real_of_int k"]
    by (simp add: hue_wave_def)
  show "real_of_int k + 1 / 6 \<le> x \<Longrightarrow> x \<le> real_of_int k + 1 / 2 \<Longrightarrow> hue_wave x = 1"
    using py_mod_1_shift [of k x] trapezoid_pieces(2) [of "x - real_of_int k"]
    by (simp add: hue_wave_def)
  show "real_of_int k + 1 / 2 \<le> x \<Longrightarrow> x \<le> real_of_int k + 2 / 3 \<Longrightarrow> hue_wave x = 4 - 6 * (x - real_of_int k)"
    using py_mod_1_shift [of k x] trapezoid_pieces(3) [of "x - real_of_int k"]
    by (simp add: hue_wave_def)
  show "real_of_int k + 2 / 3 \<le> x \<Longrightarrow> x < real_of_int k + 1 \<Longrightarrow> hue_wave x = 0"
    using py_mod_1_shift [of k x] trapezoid_pieces(4) [of "x - real_of_int k"]
    by (simp add: hue_wave_def)
qed

lemma hue_wave_0:
  "0 \<le> x \<Longrightarrow> x \<le> 1 / 6 \<Longrightarrow> hue_wave x = 6 * x"
  "1 / 6 \<le> x \<Longrightarrow> x \<le> 1 / 2 \<Longrightarrow> hue_wave x = 1"
  "1 / 2 \<le> x \<Longrightarrow> x \<le> 2 / 3 \<Longrightarrow> hue_wave x = 4 - 6 * x"
  "2 / 3 \<le> x \<Longrightarrow> x < 1 \<Longrightarrow> hue_wave x = 0"
  using hue_wave_at [of 0 x] by simp_all

lemma hue_wave_1:
  "1 \<le> x \<Longrightarrow> x \<le> 1 + 1 / 6 \<Longrightarrow> hue_wave x = 6 * (x - 1)"
  "1 + 1 / 6 \<le> x \<Longrightarrow> x \<le> 1 + 1 / 2 \<Longrightarrow> hue_wave x = 1"
  using hue_wave_at(1,2) [of 1 x] by simp_all

lemma hue_wave_m1:
  "- 1 + 2 / 3 \<le> x \<Longrightarrow> x < 0 \<Longrightarrow> hue_wave x = 0"
  using hue_wave_at(4) [of "-1" x] by simp


lemma py_mod_unit: "0 \<le> x \<Longrightarrow> x < 1 \<Longrightarrow> py_mod x 1 = x"
  using py_mod_1_shift [of 0 x] by simp

lemma sector1:
  assumes "0 \<le> q" "q \<le> 1" "h = py_mod (q / 6) 1"
  shows "hue_wave (h + 1 / 3) = 1" "hue_wave h = q" "hue_wave (h - 1 / 3) = 0"
proof -
  have h: "h = q / 6" using assms py_mod_unit [of "q / 6"] by simp
  show "hue_wave (h + 1 / 3) = 1" using assms(1,2) hue_wave_0(2) [of "h + 1 / 3"] by (simp add: h)
  show "hue_wave h = q" using assms(1,2) hue_wave_0(1) [of h] by (simp add: h)
  show "hue_wave (h - 1 / 3) = 0" using assms(1,2) hue_wave_m1 [of "h - 1 / 3"] by (simp add: h)
qed

lemma sector2:
  assumes "0 < q" "q \<le> 1" "h = py_mod (- q / 6) 1"
  shows "hue_wave (h + 1 / 3) = 1" "hue_wave h = 0" "hue_wave (h - 1 / 3) = q"
proof -
  have h: "h = 1 - q / 6" using assms py_mod_1_shift [of "-1" "- q / 6"] by simp
  show "hue_wave (h + 1 / 3) = 1" using assms(1,2) hue_wave_1(2) [of "h + 1 / 3"] by (simp add: h)
  show "hue_wave h = 0" using assms(1,2) hue_wave_0(4) [of h] by (simp add: h)
  show "hue_wave (h - 1 / 3) = q" using assms(1,2) hue_wave_0(3) [of "h - 1 / 3"] by (simp add: h)
qed

lemma sector3:
  assumes "0 \<le> q" "q \<le> 1" "h = py_mod ((2 + q) / 6) 1"
  shows "hue_wave (h + 1 / 3) = 0" "hue_wave h = 1" "hue_wave (h - 1 / 3) = q"
proof -
  have h: "h = 1 / 3 + q / 6" using assms py_mod_unit [of "(2 + q) / 6"] by (simp add: add_divide_distrib)
  show "hue_wave (h + 1 / 3) = 0" using assms(1,2) hue_wave_0(4) [of "h + 1 / 3"] by (simp add: h)
  show "hue_wave h = 1" using assms(1,2) hue_wave_0(2) [of h] by (simp add: h)
  show "hue_wave (h - 1 / 3) = q" using assms(1,2) hue_wave_0(1) [of "h - 1 / 3"] by (simp add: h)
qed

lemma sector4:
  assumes "0 \<le> q" "q \<le> 1" "h = py_mod ((2 - q) / 6) 1"
  shows "hue_wave (h + 1 / 3) = q" "hue_wave h = 1" "hue_wave (h - 1 / 3) = 0"
proof -
  have h: "h = 1 / 3 - q / 6" using assms py_mod_unit [of "(2 - q) / 6"] by (simp add: diff_divide_distrib)
  show "hue_wave (h + 1 / 3) = q" using assms(1,2) hue_wave_0(3) [of "h + 1 / 3"] by (simp add: h)
  show "hue_wave h = 1" using assms(1,2) hue_wave_0(2) [of h] by (simp add: h)
  show "hue_wave (h - 1 / 3) = 0"
  proof (cases "q = 0")
    case True
    then show ?thesis using hue_wave_0(1) [of 0] by (simp add: h)
  next
    case False
    then show ?thesis using assms(1,2) hue_wave_m1 [of "h - 1 / 3"] by (simp add: h)
  qed
qed

lemma sector5:
  assumes "0 \<le> q" "q \<le> 1" "h = py_mod ((4 + q) / 6) 1"
  shows "hue_wave (h + 1 / 3) = q" "hue_wave h = 0" "hue_wave (h - 1 / 3) = 1"
proof -
  have h: "h = 2 / 3 + q / 6" using assms py_mod_unit [of "(4 + q) / 6"] by (simp add: add_divide_distrib)
  show "hue_wave (h + 1 / 3) = q" using assms(1,2) hue_wave_1(1) [of "h + 1 / 3"] by (simp add: h)
  show "hue_wave h = 0" using assms(1,2) hue_wave_0(4) [of h] by (simp add: h)
  show "hue_wave (h - 1 / 3) = 1" using assms(1,2) hue_wave_0(2) [of "h - 1 / 3"] by (simp add: h)
qed

lemma sector6:
  assumes "0 \<le> q" "q \<le> 1" "h = py_mod ((4 - q) / 6) 1"
  shows "hue_wave (h + 1 / 3) = 0" "hue_wave h = q" "hue_wave (h - 1 / 3) = 1"
proof -
  have h: "h = 2 / 3 - q / 6" using assms py_mod_unit [of "(4 - q) / 6"] by (simp add: diff_divide_distrib)
  show "hue_wave (h + 1 / 3) = 0"
  proof (cases "q = 0")
    case True
    then show ?thesis using hue_wave_1(1) [of 1] by (simp add: h)
  next
    case False
    then show ?thesis using assms(1,2) hue_wave_0(4) [of "h + 1 / 3"] by (simp add: h)
  qed
  show "hue_wave h = q" using assms(1,2) hue_wave_0(3) [of h] by (simp add: h)
  show "hue_wave (h - 1 / 3) = 1" using assms(1,2) hue_wave_0(2) [of "h - 1 / 3"] by (simp add: h)
qed


lemma hue_channels:
  fixes R G B M m :: real
  assumes b: "m \<le> R" "R \<le> M" "m \<le> G" "G \<le> M" "m \<le> B" "B \<le> M" and lt: "m < M"
    and mx: "R = M \<or> G = M \<or> B = M" and mn: "R = m \<or> G = m \<or> B = m"
    and h: "h = py_mod ((if R = M then (M - B) / (M - m) - (M - G) / (M - m)
                   else if G = M then 2 + (M - R) / (M - m) - (M - B) / (M - m)
                   else 4 + (M - G) / (M - m) - (M - R) / (M - m)) / 6) 1"
  shows "m + (M - m) * hue_wave (h + 1 / 3) = R \<and> m + (M - m) * hue_wave h = G \<and>
         m + (M - m) * hue_wave (h - 1 / 3) = B"
proof -
  define d where "d = M - m"
  have d: "0 < d" using lt by (simp add: d_def)
  define q where "q X = (X - m) / d" for X
  have q01: "0 \<le> q X \<and> q X \<le> 1" if "m \<le> X" "X \<le> M" for X
    using that d by (simp add: q_def d_def)
  have rebuild: "m + d * q X = X" for X using d by (simp add: q_def)
  have comp: "(M - X) / d = 1 - q X" for X
    using d by (simp add: q_def d_def field_simps)
  have qm: "q m = 0" by (simp add: q_def)
  have qM: "q M = 1" using d by (simp add: q_def d_def)
  note h' = h [unfolded d_def [symmetric] comp]
  show ?thesis
  proof (cases "R = M")
    case rM: True
    show ?thesis
    proof (cases "B = m")
      case True
      with rM h' have hq: "h = py_mod (q G / 6) 1" by (simp add: qm)
      from sector1 [OF _ _ hq] q01 [OF b(3,4)] rebuild [of G] rM True d
      show ?thesis by (simp add: d_def)
    next
      case False
      with mn rM lt have gm: "G = m" by auto
      from False b(5) have "m < B" by simp
      then have qpos: "0 < q B" using d by (simp add: q_def)
      from rM gm h' have hq: "h = py_mod (- q B / 6) 1" by (simp add: qm)
      from sector2 [OF qpos _ hq] q01 [OF b(5,6)] rebuild [of B] rM gm d
      show ?thesis by (simp add: d_def)
    qed
  next
    case rM: False
    show ?thesis
    proof (cases "G = M")
      case gM: True
      show ?thesis
      proof (cases "R = m")
        case True
        with rM gM h' have hq: "h = py_mod ((2 + q B) / 6) 1" by (simp add: qm)
        from sector3 [OF _ _ hq] q01 [OF b(5,6)] rebuild [of B] gM True d
        show ?thesis by (simp add: d_def)
      next
        case False
        with mn gM lt have bm: "B = m" by auto
        from rM gM bm h' have hq: "h = py_mod ((2 - q R) / 6) 1" by (simp add: qm)
        from sector4 [OF _ _ hq] q01 [OF b(1,2)] rebuild [of R] gM bm d
        show ?thesis by (simp add: d_def)
      qed
    next
      case gM: False
      with rM mx have bM: "B = M" by simp
      show ?thesis
      proof (cases "G = m")
        case True
        with rM gM h' have hq: "h = py_mod ((4 + q R) / 6) 1" by (simp add: qm)
        from sector5 [OF _ _ hq] q01 [OF b(1,2)] rebuild [of R] bM True d
        show ?thesis by (simp add: d_def)
      next
        case False
        with mn bM lt have rm: "R = m" by auto
        from rM gM rm h' have hq: "h = py_mod ((4 - q G) / 6) 1" by (simp add: qm)
        from sector6 [OF _ _ hq] q01 [OF b(3,4)] rebuild [of G] bM rm d
        show ?thesis by (simp add: d_def)
      qed
    qed
  qed
qed

text \<open>
  The trapezoid changes by at most six times the change of the hue, also across the turn;
  a channel changes by at most \<open>1/24\<close> when lightness and saturation drop by at most
  \<open>1/100\<close> and the trapezoid value moves by at most \<open>1/60\<close>.
\<close>

lemma trapezoid_range: "0 \<le> trapezoid u \<and> trapezoid u \<le> 1"
  by (simp add: trapezoid_def max_def min_def)

lemma hue_wave_range: "0 \<le> hue_wave x \<and> hue_wave x \<le> 1"
  unfolding hue_wave_def by (rule trapezoid_range)

lemma trapezoid_lipschitz:
  "0 \<le> d \<Longrightarrow> \<bar>trapezoid (u + d) - trapezoid u\<bar> \<le> 6 * d"
  by (simp add: trapezoid_def max_def min_def abs_if)

lemma hue_wave_lipschitz:
  assumes "0 \<le> d"
  shows "\<bar>hue_wave (x + d) - hue_wave x\<bar> \<le> 6 * d"
proof (cases "d < 1 / 6")
  case False
  then have "1 \<le> 6 * d" by simp
  moreover have "\<bar>hue_wave (x + d) - hue_wave x\<bar> \<le> 1"
    using hue_wave_range [of x] hue_wave_range [of "x + d"] by linarith
  ultimately show ?thesis by linarith
next
  case True
  define k where "k = \<lfloor>x\<rfloor>"
  define u where "u = x - of_int k"
  have u: "0 \<le> u" "u < 1" unfolding u_def k_def by linarith+
  have mx: "py_mod x 1 = u" by (simp add: py_mod_def u_def k_def)
  show ?thesis
  proof (cases "u + d < 1")
    case a: True
    have "of_int k \<le> x + d" "x + d < of_int k + 1" using u a assms by (simp_all add: u_def)
    then have "py_mod (x + d) 1 = u + d" using py_mod_1_shift [of k "x + d"] by (simp add: u_def)
    then show ?thesis using trapezoid_lipschitz [OF assms, of u] by (simp add: hue_wave_def mx)
  next
    case b: False
    have "of_int (k + 1) \<le> x + d" "x + d < of_int (k + 1) + 1" using u b True by (simp_all add: u_def)
    then have md: "py_mod (x + d) 1 = u + d - 1"
      using py_mod_1_shift [of "k + 1" "x + d"] by (simp add: u_def)
    have t1: "trapezoid (u + d - 1) = 6 * (u + d - 1)"
      using b u True by (intro trapezoid_pieces(1)) simp_all
    have t2: "trapezoid u = 0" using b True by (intro trapezoid_pieces(4)) simp
    show ?thesis using u b by (simp add: hue_wave_def mx md t1 t2)
  qed
qed

lemma chroma_width_range: "0 \<le> l \<Longrightarrow> l \<le> 1 \<Longrightarrow> 0 \<le> chroma_width l \<and> chroma_width l \<le> 1"
  by (simp add: chroma_width_def abs_if)

lemma chroma_width_lipschitz: "\<bar>chroma_width l - chroma_width l'\<bar> \<le> 2 * \<bar>l - l'\<bar>"
  by (simp add: chroma_width_def abs_if)

lemma abs_mult_le1:
  fixes a x :: real
  assumes "0 \<le> a" "a \<le> 1" "\<bar>x\<bar> \<le> c"
  shows "\<bar>a * x\<bar> \<le> c"
proof -
  have "\<bar>a * x\<bar> = a * \<bar>x\<bar>" using assms(1) by (simp add: abs_mult)
  also have "\<dots> \<le> 1 * \<bar>x\<bar>" using assms(2) by (intro mult_right_mono) simp_all
  finally show ?thesis using assms(3) by simp
qed

lemma abs_mult_half:
  fixes t x :: real
  assumes "0 \<le> t" "t \<le> 1" "\<bar>x\<bar> \<le> c"
  shows "\<bar>x * (t - 1 / 2)\<bar> \<le> c / 2"
proof -
  have "\<bar>t - 1 / 2\<bar> \<le> 1 / 2" using assms by (simp add: abs_if)
  then have "\<bar>x\<bar> * \<bar>t - 1 / 2\<bar> \<le> \<bar>x\<bar> * (1 / 2)" by (intro mult_left_mono) simp_all
  then show ?thesis using assms(3) by (simp add: abs_mult)
qed

lemma channel_nonneg:
  assumes "0 \<le> l" "l \<le> 1" "0 \<le> s" "s \<le> 1" "0 \<le> t" "t \<le> 1"
  shows "0 \<le> channel l s t"
proof -
  define w where "w = chroma_width l"
  have w: "0 \<le> w" "w \<le> 1" using chroma_width_range [OF assms(1,2)] by (simp_all add: w_def)
  have wl: "w / 2 \<le> l" using assms(1,2) by (simp add: w_def chroma_width_def abs_if)
  have "\<bar>w\<bar> \<le> w" using w by simp
  then have "\<bar>s * w\<bar> \<le> w" using assms(3,4) by (intro abs_mult_le1)
  then have "\<bar>(s * w) * (t - 1 / 2)\<bar> \<le> w / 2" using assms(5,6) by (intro abs_mult_half)
  then have "- (w / 2) \<le> (s * w) * (t - 1 / 2)" by simp
  then show ?thesis using wl unfolding channel_def w_def by linarith
qed

lemma channel_error:
  assumes l: "0 \<le> l'" "l' \<le> l" "l \<le> 1" "l - l' \<le> 1 / 100"
    and s: "0 \<le> s'" "s' \<le> s" "s \<le> 1" "s - s' \<le> 1 / 100"
    and t: "0 \<le> t" "t \<le> 1" "0 \<le> t'" "t' \<le> 1" "\<bar>t - t'\<bar> \<le> 1 / 60"
  shows "\<bar>channel l s t - channel l' s' t'\<bar> \<le> 1 / 24"
proof -
  define w where "w = chroma_width l"
  define w' where "w' = chroma_width l'"
  have w: "0 \<le> w" "w \<le> 1" using chroma_width_range [of l] l by (simp_all add: w_def)
  have w': "0 \<le> w'" "w' \<le> 1" using chroma_width_range [of l'] l by (simp_all add: w'_def)
  have "\<bar>l - l'\<bar> \<le> 1 / 100" using l by simp
  then have ww: "\<bar>w - w'\<bar> \<le> 1 / 50"
    using chroma_width_lipschitz [of l l'] unfolding w_def w'_def by simp
  define p1 where "p1 = w * (s - s')"
  define p2 where "p2 = s' * (w - w')"
  define a' where "a' = s' * w'"
  have "\<bar>s - s'\<bar> \<le> 1 / 100" using s by simp
  then have p1: "\<bar>p1\<bar> \<le> 1 / 100"
    unfolding p1_def using w by (intro abs_mult_le1)
  have p2: "\<bar>p2\<bar> \<le> 1 / 50"
    unfolding p2_def using s ww by (intro abs_mult_le1) simp_all
  have "\<bar>w'\<bar> \<le> 1" using w' by simp
  then have "\<bar>a'\<bar> \<le> 1" unfolding a'_def using s by (intro abs_mult_le1) simp_all
  moreover have "0 \<le> a'" unfolding a'_def using s(1) w'(1) by simp
  ultimately have a'01: "0 \<le> a'" "a' \<le> 1" by simp_all
  define p3 where "p3 = (p1 + p2) * (t - 1 / 2)"
  define p4 where "p4 = a' * (t - t')"
  have "\<bar>p1 + p2\<bar> \<le> 3 / 100" using p1 p2 by arith
  then have "\<bar>p3\<bar> \<le> (3 / 100) / 2"
    unfolding p3_def using t(1,2) by (intro abs_mult_half)
  then have p3: "\<bar>p3\<bar> \<le> 3 / 200" by simp
  have p4: "\<bar>p4\<bar> \<le> 1 / 60"
    unfolding p4_def using a'01 t(5) by (intro abs_mult_le1)
  have "channel l s t - channel l' s' t' = (l - l') + p3 + p4"
    unfolding channel_def p3_def p4_def p1_def p2_def a'_def w_def [symmetric] w'_def [symmetric]
    by (simp add: algebra_simps)
  then show ?thesis using p3 p4 l by arith
qed

text \<open>
  On channels in \<open>[0, 1]\<close>, \<open>rgb_to_hls\<close> returns a hue, lightness and saturation from
  which \<open>hls_to_rgb\<close> rebuilds the three channels exactly.
\<close>

lemma rgb_to_hls_forward:
  fixes R G B :: real
  assumes u: "0 \<le> R" "R \<le> 1" "0 \<le> G" "G \<le> 1" "0 \<le> B" "B \<le> 1"
  shows "\<exists>h l s. rgb_to_hls R G B = Inr (h, l, s) \<and>
           0 \<le> h \<and> h < 1 \<and> 0 \<le> l \<and> l \<le> 1 \<and> 0 \<le> s \<and> s \<le> 1 \<and>
           channel l s (hue_wave (h + 1 / 3)) = R \<and>
           channel l s (hue_wave h) = G \<and>
           channel l s (hue_wave (h - 1 / 3)) = B"
proof -
  define M where "M = max R (max G B)"
  define m where "m = min R (min G B)"
  have b: "m \<le> R" "R \<le> M" "m \<le> G" "G \<le> M" "m \<le> B" "B \<le> M"
    unfolding M_def m_def by simp_all
  have mx: "R = M \<or> G = M \<or> B = M" unfolding M_def by (auto simp: max_def)
  have mn: "R = m \<or> G = m \<or> B = m" unfolding m_def by (auto simp: min_def)
  have r: "0 \<le> m" "M \<le> 1" using u unfolding M_def m_def by simp_all
  have le: "m \<le> M" using b by linarith
  define l where "l = (M + m) / 2"
  have l01: "0 \<le> l" "l \<le> 1" using r le by (simp_all add: l_def)
  show ?thesis
  proof (cases "m = M")
    case True
    then have "rgb_to_hls R G B = Inr (0, l, 0)"
      using rgb_to_hls_grey [of R G B] by (simp add: M_def m_def l_def)
    moreover have "l = R" "l = G" "l = B" using True b by (simp_all add: l_def)
    ultimately show ?thesis using l01 by (auto simp: channel_def)
  next
    case False
    with le have lt: "m < M" by simp
    have s0: "M + m \<noteq> 0" and s2: "2 - M - m \<noteq> 0" using lt r by simp_all
    define s where "s = (if l \<le> 1 / 2 then (M - m) / (M + m) else (M - m) / (2 - M - m))"
    define h where "h = py_mod ((if R = M then (M - B) / (M - m) - (M - G) / (M - m)
                   else if G = M then 2 + (M - R) / (M - m) - (M - B) / (M - m)
                   else 4 + (M - G) / (M - m) - (M - R) / (M - m)) / 6) 1"
    have res: "rgb_to_hls R G B = Inr (h, l, s)"
      using rgb_to_hls_color [of R G B] False s0 s2
      unfolding M_def [symmetric] m_def [symmetric] h_def s_def l_def by simp
    have h01: "0 \<le> h" "h < 1" using py_mod_range [of 1] by (simp_all add: h_def)
    have sw: "s * chroma_width l = M - m"
    proof (cases "l \<le> 1 / 2")
      case True
      then have "\<bar>2 * l - 1\<bar> = 1 - 2 * l" by simp
      then have "chroma_width l = 2 * l" by (simp add: chroma_width_def)
      moreover have "2 * l = M + m" by (simp add: l_def)
      ultimately have "chroma_width l = M + m" by linarith
      with True s0 show ?thesis by (simp add: s_def)
    next
      case False
      then have "\<bar>2 * l - 1\<bar> = 2 * l - 1" by simp
      then have "chroma_width l = 2 - 2 * l" by (simp add: chroma_width_def)
      moreover have "2 * l = M + m" by (simp add: l_def)
      ultimately have "chroma_width l = 2 - M - m" by linarith
      with False s2 show ?thesis by (simp add: s_def)
    qed
    have s01: "0 \<le> s" "s \<le> 1"
    proof -
      show "0 \<le> s" using lt r by (simp add: s_def)
      show "s \<le> 1"
      proof (cases "l \<le> 1 / 2")
        case True
        have "0 < M + m" using lt r by simp
        then show ?thesis using True r by (simp add: s_def)
      next
        case False
        have "0 < 2 - M - m" using lt r by simp
        then show ?thesis using False r by (simp add: s_def)
      qed
    qed
    have ch: "channel l s t = m + (M - m) * t" for t
      unfolding channel_def mult.assoc [symmetric] sw by (simp add: l_def field_simps)
    from hue_channels [OF b lt mx mn h_def]
    have "channel l s (hue_wave (h + 1 / 3)) = R \<and> channel l s (hue_wave h) = G \<and>
          channel l s (hue_wave (h - 1 / 3)) = B"
      unfolding ch .
    with res h01 l01 s01 show ?thesis by blast
  qed
qed

text \<open>Truncation to whole degrees and percent, and of the rebuilt channel.\<close>

lemma py_int_scaled:
  assumes "0 \<le> x" "0 < n"
  shows "0 \<le> real_of_int (py_int (x * n)) / n"
    "real_of_int (py_int (x * n)) / n \<le> x"
    "x - real_of_int (py_int (x * n)) / n \<le> 1 / n"
proof -
  have nn: "0 \<le> x * n" using assms by simp
  then have p: "py_int (x * n) = \<lfloor>x * n\<rfloor>" by (simp add: py_int_def)
  have f0: "0 \<le> \<lfloor>x * n\<rfloor>" using nn by simp
  have f1: "real_of_int \<lfloor>x * n\<rfloor> \<le> x * n" by simp
  have f2: "x * n < real_of_int \<lfloor>x * n\<rfloor> + 1" by linarith
  show "0 \<le> real_of_int (py_int (x * n)) / n" using f0 assms(2) by (simp add: p)
  show "real_of_int (py_int (x * n)) / n \<le> x"
    using f1 assms(2) by (simp add: p pos_divide_le_eq)
  have "x * n - real_of_int \<lfloor>x * n\<rfloor> \<le> 1" using f2 by linarith
  then have "(x * n - real_of_int \<lfloor>x * n\<rfloor>) / n \<le> 1 / n"
    using assms(2) by (intro divide_right_mono) simp_all
  then show "x - real_of_int (py_int (x * n)) / n \<le> 1 / n"
    using assms(2) by (simp add: p diff_divide_distrib)
qed

lemma py_int_channel_close:
  assumes "0 \<le> C'" "\<bar>real_of_int c / 255 - C'\<bar> \<le> 1 / 24"
  shows "\<bar>py_int (C' * 255) - c\<bar> \<le> 11"
proof -
  have p: "py_int (C' * 255) = \<lfloor>C' * 255\<rfloor>" using assms(1) by (simp add: py_int_def)
  have lo: "real_of_int c - 255 / 24 \<le> C' * 255" and hi: "C' * 255 \<le> real_of_int c + 255 / 24"
    using assms(2) by arith+
  have "real_of_int (c - 11) \<le> C' * 255" using lo by simp
  then have a: "c - 11 \<le> \<lfloor>C' * 255\<rfloor>" by (simp only: le_floor_iff)
  have "C' * 255 < real_of_int (c + 11)" using hi by simp
  then have b: "\<lfloor>C' * 255\<rfloor> < c + 11" by (simp only: floor_less_iff)
  from a b show ?thesis unfolding p by simp
qed

lemma channel_round_trip:
  assumes h: "h' \<le> h" "h - h' \<le> 1 / 360"
    and l: "0 \<le> l'" "l' \<le> l" "l \<le> 1" "l - l' \<le> 1 / 100"
    and s: "0 \<le> s'" "s' \<le> s" "s \<le> 1" "s - s' \<le> 1 / 100"
    and c: "channel l s (hue_wave (h + off)) = real_of_int c / 255"
  shows "\<bar>py_int (channel l' s' (hue_wave (h' + off)) * 255) - c\<bar> \<le> 11"
proof -
  define t where "t = hue_wave (h + off)"
  define t' where "t' = hue_wave (h' + off)"
  have t: "0 \<le> t" "t \<le> 1" "0 \<le> t'" "t' \<le> 1"
    using hue_wave_range [of "h + off"] hue_wave_range [of "h' + off"] by (simp_all add: t_def t'_def)
  define d where "d = h - h'"
  have d: "0 \<le> d" "d \<le> 1 / 360" using h by (simp_all add: d_def)
  have "\<bar>hue_wave ((h' + off) + d) - hue_wave (h' + off)\<bar> \<le> 6 * d"
    using d(1) by (rule hue_wave_lipschitz)
  moreover have "(h' + off) + d = h + off" by (simp add: d_def)
  ultimately have "\<bar>t - t'\<bar> \<le> 6 * d" by (simp add: t_def t'_def)
  then have tt: "\<bar>t - t'\<bar> \<le> 1 / 60" using d(2) by linarith
  have e: "\<bar>channel l s t - channel l' s' t'\<bar> \<le> 1 / 24"
    using l s t tt by (intro channel_error)
  have n: "0 \<le> channel l' s' t'"
    using l s t by (intro channel_nonneg) simp_all
  from e have "\<bar>real_of_int c / 255 - channel l' s' t'\<bar> \<le> 1 / 24"
    using c by (simp add: t_def)
  from py_int_channel_close [OF n this] show ?thesis by (simp add: t'_def)
qed

text \<open>
  C1 (as stated: for every RGB triple with channels in \<open>[0, 255]\<close>, converting to HSL
  and back yields a triple whose channels differ from the original ones by at most 1).
  The HSL value holds whole percentages, so \<open>(2, 2, 2)\<close>, whose lightness of 0.78 percent
  is truncated to 0, comes back as \<open>(0, 0, 0)\<close>: a difference of 2 in every channel.
\<close>

theorem hsl_round_trip_not_exact:
  "hsl_round_trip (2, 2, 2) = Inr (0, 0, 0)"
  by code_simp

text \<open>The difference reaches 10: the blue channel of \<open>(5, 244, 240)\<close> comes back as 230.\<close>

lemma hsl_round_trip_deviation_10:
  "hsl_round_trip (5, 244, 240) = Inr (6, 238, 230)"
  by code_simp

text \<open>
  C1 (amended). For every RGB triple with channels in \<open>[0, 255]\<close>, converting it to HSL
  with \<open>_rgb_to_hsl\<close> and back with \<open>_hsl_to_rgb\<close> (the percentages divided by 100)
  raises nothing and yields a triple in which each channel differs from the corresponding
  original channel by at most 11.
\<close>

theorem hsl_round_trip_bound:
  assumes "valid_rgb (r, g, b)"
  shows "\<exists>r' g' b'. hsl_round_trip (r, g, b) = Inr (r', g', b') \<and>
           \<bar>r' - r\<bar> \<le> 11 \<and> \<bar>g' - g\<bar> \<le> 11 \<and> \<bar>b' - b\<bar> \<le> 11"
proof -
  have u: "0 \<le> real_of_int r / 255" "real_of_int r / 255 \<le> 1"
    "0 \<le> real_of_int g / 255" "real_of_int g / 255 \<le> 1"
    "0 \<le> real_of_int b / 255" "real_of_int b / 255 \<le> 1"
    using assms by (simp_all add: valid_rgb_def)
  from rgb_to_hls_forward [OF u] obtain h l s where
    res: "rgb_to_hls (real_of_int r / 255) (real_of_int g / 255) (real_of_int b / 255) = Inr (h, l, s)"
    and h: "0 \<le> h" "h < 1" and l: "0 \<le> l" "l \<le> 1" and s: "0 \<le> s" "s \<le> 1"
    and cr: "channel l s (hue_wave (h + 1 / 3)) = real_of_int r / 255"
    and cg: "channel l s (hue_wave (h + 0)) = real_of_int g / 255"
    and cb: "channel l s (hue_wave (h + (- (1 / 3)))) = real_of_int b / 255"
    by auto
  define h' where "h' = real_of_int (py_int (h * 360)) / 360"
  define l' where "l' = real_of_int (py_int (l * 100)) / 100"
  define s' where "s' = real_of_int (py_int (s * 100)) / 100"
  have hh: "h' \<le> h" "h - h' \<le> 1 / 360"
    using py_int_scaled [of h 360] h by (simp_all add: h'_def)
  have ll: "0 \<le> l'" "l' \<le> l" "l \<le> 1" "l - l' \<le> 1 / 100"
    using py_int_scaled [of l 100] l by (simp_all add: l'_def)
  have ss: "0 \<le> s'" "s' \<le> s" "s \<le> 1" "s - s' \<le> 1 / 100"
    using py_int_scaled [of s 100] s by (simp_all add: s'_def)
  define r' where "r' = py_int (channel l' s' (hue_wave (h' + 1 / 3)) * 255)"
  define g' where "g' = py_int (channel l' s' (hue_wave (h' + 0)) * 255)"
  define b' where "b' = py_int (channel l' s' (hue_wave (h' + (- (1 / 3)))) * 255)"
  have "hsl_round_trip (r, g, b) = Inr (r', g', b')"
    unfolding hsl_round_trip_def rgb_to_hsl_def hsl_to_rgb_def
    by (simp add: res hls_to_rgb_closed hue_wave_def [symmetric] Let_def
        h'_def [symmetric] l'_def [symmetric] s'_def [symmetric] r'_def g'_def b'_def)
  moreover have "\<bar>r' - r\<bar> \<le> 11" unfolding r'_def by (rule channel_round_trip [OF hh ll ss cr])
  moreover have "\<bar>g' - g\<bar> \<le> 11" unfolding g'_def by (rule channel_round_trip [OF hh ll ss cg])
  moreover have "\<bar>b' - b\<bar> \<le> 11" unfolding b'_def by (rule channel_round_trip [OF hh ll ss cb])
  ultimately show ?thesis by blast
qed


theorem hsl_round_trip_bound_witness:
  "\<exists>r' g' b'. hsl_round_trip (5, 244, 240) = Inr (r', g', b') \<and>
           \<bar>r' - 5\<bar> \<le> 11 \<and> \<bar>g' - 244\<bar> \<le> 11 \<and> \<bar>b' - 240\<bar> \<le> 11"
  using hsl_round_trip_bound [of 5 244 240] by (simp add: valid_rgb_def)


end
